theory Spec2Isabelle
  imports Complex_Main "HOL-Library.Word" "HOL-Library.Log_Nat"
begin

section \<open>JavaScript values used by janus-token\<close>

text \<open>
  A JavaScript string is a sequence of UTF-16 code units: \<open>length\<close>, \<open>substr\<close>,
  \<open>indexOf\<close> and \<open>charCodeAt\<close> all count code units. The default delimiter
  U+2730 is one code unit.
\<close>

type_synonym jsstring = "16 word list"

definition js :: "string \<Rightarrow> jsstring" where
  "js s = map (\<lambda>c. word_of_nat (of_char c)) s"

text \<open>
  A field of the request object: a string, or missing (\<open>undefined\<close>), or \<open>null\<close>.
  The doc comments of \<open>create\<close>, \<open>compare\<close> and \<open>calculate\<close> type every field as String.
\<close>

datatype jsopt = Undefined | Null | Str jsstring

text \<open>Truthiness of such a field, as in \<open>request.httpVersion ? ... : blank\<close>.\<close>

fun truthy_opt :: "jsopt \<Rightarrow> bool" where
  "truthy_opt (Str s) = (s \<noteq> [])"
| "truthy_opt _ = False"

text \<open>The string that \<open>x + this.delimit\<close> concatenates for a field \<open>x\<close> (ToString).\<close>

fun toString_opt :: "jsopt \<Rightarrow> jsstring" where
  "toString_opt Undefined = js ''undefined''"
| "toString_opt Null = js ''null''"
| "toString_opt (Str s) = s"

text \<open>\<open>s.substr(0, n)\<close>.\<close>

definition substr0 :: "nat \<Rightarrow> jsstring \<Rightarrow> jsstring" where
  "substr0 n s = take n s"

text \<open>
  \<open>String.prototype.trim\<close> strips WhiteSpace and LineTerminator code units
  (ECMAScript: TAB, LF, VT, FF, CR, SP, NBSP, the Zs category, LS, PS, BOM).
\<close>

definition is_js_whitespace :: "16 word \<Rightarrow> bool" where
  "is_js_whitespace c \<longleftrightarrow>
     c \<in> {0x09, 0x0A, 0x0B, 0x0C, 0x0D, 0x20, 0xA0, 0x1680,
          0x2000, 0x2001, 0x2002, 0x2003, 0x2004, 0x2005, 0x2006, 0x2007,
          0x2008, 0x2009, 0x200A, 0x2028, 0x2029, 0x202F, 0x205F, 0x3000, 0xFEFF}"

definition trim :: "jsstring \<Rightarrow> jsstring" where
  "trim s = rev (dropWhile is_js_whitespace (rev (dropWhile is_js_whitespace s)))"

text \<open>\<open>s.indexOf(c)\<close> for a one-character needle: the first index, or \<open>-1\<close>.\<close>

fun indexOf :: "jsstring \<Rightarrow> 16 word \<Rightarrow> int" where
  "indexOf [] c = -1"
| "indexOf (x # xs) c =
     (if x = c then 0 else (let r = indexOf xs c in if r = -1 then -1 else r + 1))"

text \<open>
  A value passed where a RegExp is expected: a regular expression, given by the index of
  its first match in a string (if any), or \<open>undefined\<close>.
  \<open>s.search(undefined)\<close> builds \<open>new RegExp(undefined)\<close>, the empty pattern, which
  matches at index 0 of every string.
\<close>

datatype matcher = NoRegExp | RegExp "jsstring \<Rightarrow> nat option"

fun search :: "jsstring \<Rightarrow> matcher \<Rightarrow> int" where
  "search s NoRegExp = 0"
| "search s (RegExp f) = (case f s of None \<Rightarrow> -1 | Some i \<Rightarrow> int i)"

text \<open>\<open>b & 1\<close> for a boolean \<open>b\<close>.\<close>

definition and1 :: "bool \<Rightarrow> int" where
  "and1 b = (if b then 1 else 0)"

section \<open>The module-level defaults (index.js, lines 8 to 13)\<close>

definition blank :: jsstring where
  "blank = []"

definition defaultDelimit :: jsstring where
  "defaultDelimit = [0x2730]"

text \<open>
  The default patterns are alternatives of literal ASCII words under the flag \<open>i\<close>:
  a match starts where one of the words is a prefix, letters compared without case.
\<close>

definition lower_ascii :: "16 word \<Rightarrow> 16 word" where
  "lower_ascii c = (if 0x41 \<le> c \<and> c \<le> 0x5A then c + 0x20 else c)"

fun prefix_ci :: "jsstring \<Rightarrow> jsstring \<Rightarrow> bool" where
  "prefix_ci [] s = True"
| "prefix_ci (w # ws) [] = False"
| "prefix_ci (w # ws) (c # cs) = (lower_ascii w = lower_ascii c \<and> prefix_ci ws cs)"

fun first_match :: "(jsstring \<Rightarrow> bool) \<Rightarrow> jsstring \<Rightarrow> nat option" where
  "first_match p [] = (if p [] then Some 0 else None)"
| "first_match p (c # cs) =
     (if p (c # cs) then Some 0 else map_option Suc (first_match p cs))"

definition words_ci :: "string list \<Rightarrow> matcher" where
  "words_ci ws = RegExp (first_match (\<lambda>s. \<exists>w \<in> set ws. prefix_ci (js w) s))"

definition defaultBotMatch :: matcher where
  "defaultBotMatch =
     words_ci [''bot'', ''crawler'', ''link'', ''spider'', ''spyder'', ''phantom'']"

definition defaultBrowserMatch :: matcher where
  "defaultBrowserMatch = words_ci [''chrome'', ''msie'', ''safari'', ''mozilla'', ''opera'']"

text \<open>\<open>/[a-zA-Z]{2,4}\-?/\<close> matches where two ASCII letters stand side by side.\<close>

definition is_ascii_letter :: "16 word \<Rightarrow> bool" where
  "is_ascii_letter c \<longleftrightarrow> (0x41 \<le> c \<and> c \<le> 0x5A) \<or> (0x61 \<le> c \<and> c \<le> 0x7A)"

fun two_letters :: "jsstring \<Rightarrow> bool" where
  "two_letters (a # b # _) = (is_ascii_letter a \<and> is_ascii_letter b)"
| "two_letters _ = False"

definition defaultLanguageMatch :: matcher where
  "defaultLanguageMatch = RegExp (first_match two_letters)"

definition defaultIdealRequestChain :: jsstring where
  "defaultIdealRequestChain =
     js ''1.1'' @ [0x2730] @ js ''gzip, deflate'' @ [0x2730] @ js ''application/json'' @ [0x2730]
     @ js ''keep-alive'' @ [0x2730] @ js ''IPv4'' @ [0x2730] @ js ''443'' @ [0x2730]"

section \<open>The three header tests (index.js, lines 22 to 62)\<close>

text \<open>\<open>userAgentTest(agent, botMatch, browserMatch)\<close>.\<close>

fun userAgentTest :: "jsopt \<Rightarrow> matcher \<Rightarrow> matcher \<Rightarrow> real" where
  "userAgentTest (Str agent) botMatch browserMatch =
     (if trim agent = [] then 0
      else real_of_int
            (and1 (search agent botMatch = -1) +
             and1 (search agent browserMatch \<noteq> -1) +
             and1 (indexOf agent 0x2E \<noteq> -1) +
             and1 (indexOf agent 0x28 \<noteq> -1) +
             and1 (indexOf agent 0x29 \<noteq> -1) +
             and1 (indexOf agent 0x2F \<noteq> -1)) / 6)"
| "userAgentTest _ botMatch browserMatch = 0"

text \<open>\<open>evaluateLanguage(language, languageMatch)\<close>.\<close>

fun evaluateLanguage :: "jsopt \<Rightarrow> matcher \<Rightarrow> int" where
  "evaluateLanguage (Str language) languageMatch =
     (if trim language = [] then 0 else and1 (search language languageMatch \<noteq> -1))"
| "evaluateLanguage _ languageMatch = 0"

text \<open>The fields of \<open>url.parse(referer)\<close> that \<open>evaluateReferer\<close> reads.\<close>

record urlparts =
  protocol :: jsopt
  slashes :: bool
  auth :: jsopt
  host :: jsopt
  port :: jsopt

text \<open>\<open>evaluateReferer(referer)\<close>, with Node's \<open>url.parse\<close> as a parameter.\<close>

fun evaluateReferer :: "(jsstring \<Rightarrow> urlparts) \<Rightarrow> jsopt \<Rightarrow> int" where
  "evaluateReferer url_parse (Str referer) =
     (if trim referer = [] then 0
      else (let parts = url_parse referer in
            and1 ((protocol parts = Str (js ''http:'') \<or> protocol parts = Str (js ''https:''))
                  \<and> slashes parts \<and> auth parts = Null \<and> host parts \<noteq> Null
                  \<and> port parts = Null)))"
| "evaluateReferer url_parse _ = 0"

section \<open>Numbers of the pepper\<close>

text \<open>
  JavaScript numbers are IEEE-754 doubles. The pepper of \<open>create\<close> starts at 1 and is
  multiplied by character codes, so it only takes non-negative integer values, \<open>Infinity\<close>
  or \<open>NaN\<close>. \<open>Fin n\<close> is the double whose value is the integer \<open>n\<close>.
\<close>

datatype jsnum = Fin nat | PosInf | NaN

text \<open>
  The double nearest to a non-negative integer (round to nearest, ties to even): integers
  below \<open>2 ^ 53\<close> are doubles; a longer one keeps its 53 leading bits, and a result of
  \<open>2 ^ 1024\<close> or more overflows to \<open>Infinity\<close>.
\<close>

definition round53 :: "nat \<Rightarrow> jsnum" where
  "round53 n =
     (if n < 2 ^ 53 then Fin n
      else (let e = floorlog 2 n - 53;
                q = n div 2 ^ e;
                r = n mod 2 ^ e;
                m = (if 2 * r > 2 ^ e \<or> (2 * r = 2 ^ e \<and> odd q) then q + 1 else q) * 2 ^ e
            in if m < 2 ^ 1024 then Fin m else PosInf))"

text \<open>\<open>a * b\<close> and \<open>a + b\<close> on such numbers.\<close>

fun js_mul :: "jsnum \<Rightarrow> jsnum \<Rightarrow> jsnum" where
  "js_mul (Fin a) (Fin b) = round53 (a * b)"
| "js_mul NaN _ = NaN"
| "js_mul _ NaN = NaN"
| "js_mul PosInf (Fin b) = (if b = 0 then NaN else PosInf)"
| "js_mul (Fin a) PosInf = (if a = 0 then NaN else PosInf)"
| "js_mul PosInf PosInf = PosInf"

fun js_add :: "jsnum \<Rightarrow> jsnum \<Rightarrow> jsnum" where
  "js_add (Fin a) (Fin b) = round53 (a + b)"
| "js_add NaN _ = NaN"
| "js_add _ NaN = NaN"
| "js_add _ _ = PosInf"

text \<open>
  Lines 142 to 145 of \<open>create\<close>:
  \<^verbatim>\<open>var pepper = 1; for (...) { pepper *= ip.charCodeAt(i); }\<close>
\<close>

fun pepper_loop :: "jsnum \<Rightarrow> jsstring \<Rightarrow> jsnum" where
  "pepper_loop pepper [] = pepper"
| "pepper_loop pepper (c # cs) = pepper_loop (js_mul pepper (Fin (unat c))) cs"

definition pepper_of :: "jsstring \<Rightarrow> jsnum" where
  "pepper_of ip = pepper_loop (Fin 1) ip"

section \<open>Numbers of the scores\<close>

text \<open>
  The integrity score that the network returns, the score recorded in a token and the
  score handed to \<open>compare\<close> are JavaScript numbers too. A finite double is
  \<open>m * 2 ^ e\<close> for integers \<open>m\<close> and \<open>e\<close> with \<open>|m| < 2 ^ 53\<close> and
  \<open>-1074 \<le> e \<le> 971\<close>; \<open>Dyadic m e\<close> stands for it. The sign of zero is not kept:
  no operation below tells the two zeros apart.
\<close>

datatype double = Dyadic int int | PlusInfinity | MinusInfinity | NotANumber

fun finite_double :: "double \<Rightarrow> bool" where
  "finite_double (Dyadic m e) = (\<bar>m\<bar> < 2 ^ 53 \<and> - 1074 \<le> e \<and> e \<le> 971)"
| "finite_double _ = False"

text \<open>The real number that a finite double is.\<close>

fun dval :: "double \<Rightarrow> real" where
  "dval (Dyadic m e) = of_int m * 2 powi e"
| "dval _ = 0"

text \<open>
  The double nearest to \<open>m * 2 ^ e\<close>, ties to the even significand: the magnitude
  keeps its 53 leading bits, but no bit below \<open>2 ^ -1074\<close>; a result of magnitude
  \<open>2 ^ 1024\<close> or more overflows to an infinity.
\<close>

definition round_dyadic :: "int \<Rightarrow> int \<Rightarrow> double" where
  "round_dyadic m e =
     (let n = nat \<bar>m\<bar>;
          k = max (floorlog 2 n - 53) (nat (- 1074 - e));
          q = n div 2 ^ k;
          r = n mod 2 ^ k;
          q' = (if 2 * r > 2 ^ k \<or> (2 * r = 2 ^ k \<and> odd q) then q + 1 else q)
      in if 0 \<le> e + int k \<and> 2 ^ 1024 \<le> q' * 2 ^ nat (e + int k)
         then (if m < 0 then MinusInfinity else PlusInfinity)
         else Dyadic (sgn m * int q') (e + int k))"

text \<open>\<open>a - b\<close>: the exact difference, rounded.\<close>

fun js_sub :: "double \<Rightarrow> double \<Rightarrow> double" where
  "js_sub (Dyadic m1 e1) (Dyadic m2 e2) =
     (let e = min e1 e2
      in round_dyadic (m1 * 2 ^ nat (e1 - e) - m2 * 2 ^ nat (e2 - e)) e)"
| "js_sub NotANumber _ = NotANumber"
| "js_sub _ NotANumber = NotANumber"
| "js_sub PlusInfinity PlusInfinity = NotANumber"
| "js_sub MinusInfinity MinusInfinity = NotANumber"
| "js_sub PlusInfinity _ = PlusInfinity"
| "js_sub MinusInfinity _ = MinusInfinity"
| "js_sub _ PlusInfinity = MinusInfinity"
| "js_sub _ MinusInfinity = PlusInfinity"

text \<open>\<open>Math.abs(a)\<close>.\<close>

fun js_abs :: "double \<Rightarrow> double" where
  "js_abs (Dyadic m e) = Dyadic \<bar>m\<bar> e"
| "js_abs PlusInfinity = PlusInfinity"
| "js_abs MinusInfinity = PlusInfinity"
| "js_abs NotANumber = NotANumber"

text \<open>\<open>a < b\<close>.\<close>

fun js_less :: "double \<Rightarrow> double \<Rightarrow> bool" where
  "js_less (Dyadic m1 e1) (Dyadic m2 e2) =
     (let e = min e1 e2 in m1 * 2 ^ nat (e1 - e) < m2 * 2 ^ nat (e2 - e))"
| "js_less NotANumber _ = False"
| "js_less _ NotANumber = False"
| "js_less PlusInfinity _ = False"
| "js_less _ MinusInfinity = False"
| "js_less MinusInfinity _ = True"
| "js_less _ PlusInfinity = True"

text \<open>
  The literal \<open>0.05\<close> of line 203: the double nearest to it,
  \<open>3602879701896397 * 2 ^ -56\<close>.
\<close>

definition tolerance :: double where
  "tolerance = Dyadic 3602879701896397 (- 56)"

text \<open>Truthiness of a number: not zero and not \<open>NaN\<close>.\<close>

fun truthy_number :: "double \<Rightarrow> bool" where
  "truthy_number (Dyadic m e) = (m \<noteq> 0)"
| "truthy_number NotANumber = False"
| "truthy_number _ = True"

section \<open>Objects, the heap and the generator\<close>

text \<open>
  Values that callers pass for \<open>properties\<close> and \<open>version\<close>, and that decoded claims
  hold. A plain object lives on the heap and is passed by reference (\<open>VRef\<close>), so that
  an assignment to one of its properties is seen by every holder of the reference.
  Objects are plain, extensible objects whose property values are primitive.
\<close>

datatype jsval = VUndefined | VNull | VBool bool | VNum double | VStr jsstring | VRef nat

fun truthy :: "jsval \<Rightarrow> bool" where
  "truthy VUndefined = False"
| "truthy VNull = False"
| "truthy (VBool b) = b"
| "truthy (VNum x) = truthy_number x"
| "truthy (VStr s) = (s \<noteq> [])"
| "truthy (VRef a) = True"

type_synonym object = "string \<rightharpoonup> jsval"

type_synonym heap = "object list"

text \<open>\<open>{}\<close>: a fresh empty object, at an address no reference holds yet.\<close>

definition new_object :: "heap \<Rightarrow> heap \<times> jsval" where
  "new_object h = (h @ [Map.empty], VRef (length h))"

text \<open>
  \<open>v.k = x\<close>: stores into the object when \<open>v\<close> is a reference, and is silently
  dropped on a primitive (the module is not in strict mode).
\<close>

fun assign :: "heap \<Rightarrow> jsval \<Rightarrow> string \<Rightarrow> jsval \<Rightarrow> heap" where
  "assign h (VRef a) k x = (if a < length h then h[a := (h ! a)(k \<mapsto> x)] else h)"
| "assign h _ k x = h"

text \<open>\<open>this.jwtConfig\<close>.\<close>

record jwtConfig =
  secret :: jsopt
  algorithm :: jsstring
  issuer :: jsopt
  audience :: jsopt

text \<open>One element of \<open>this.trainingData\<close>: \<open>{input: {...}, output: {integrity}}\<close>.\<close>

record input =
  in_userAgent :: real
  in_language :: real
  in_referer :: real
  in_requestData :: real

record example =
  ex_input :: input
  ex_output_integrity :: real

record generator =
  jwtConfig :: jwtConfig
  delimit :: jsstring
  botMatch :: matcher
  browserMatch :: matcher
  languageMatch :: matcher
  idealRequestChain :: jsstring
  trainingData :: "example list"

text \<open>
  The constructor. Each \<open>x || default\<close> takes the default for a missing argument; for
  the two strings also for the empty string, which is falsy.
\<close>

definition or_default :: "jsstring option \<Rightarrow> jsstring \<Rightarrow> jsstring" where
  "or_default x d = (case x of None \<Rightarrow> d | Some s \<Rightarrow> if s = [] then d else s)"

definition TokenGenerator ::
  "example list option \<Rightarrow> jsopt \<Rightarrow> jsopt \<Rightarrow> jsopt \<Rightarrow> jsstring option \<Rightarrow> jsstring option \<Rightarrow>
   matcher option \<Rightarrow> matcher option \<Rightarrow> matcher option \<Rightarrow> jsstring option \<Rightarrow> generator" where
  "TokenGenerator trainingData' jwtSecret jwtIssuer jwtAudience jwtAlgorithm delimit'
     botMatch' browserMatch' languageMatch' idealRequestChain' =
   \<lparr> jwtConfig = \<lparr> secret = jwtSecret, algorithm = or_default jwtAlgorithm (js ''HS256''),
                   issuer = jwtIssuer, audience = jwtAudience \<rparr>,
     delimit = or_default delimit' defaultDelimit,
     botMatch = (case botMatch' of None \<Rightarrow> defaultBotMatch | Some m \<Rightarrow> m),
     browserMatch = (case browserMatch' of None \<Rightarrow> defaultBrowserMatch | Some m \<Rightarrow> m),
     languageMatch = (case languageMatch' of None \<Rightarrow> defaultLanguageMatch | Some m \<Rightarrow> m),
     idealRequestChain = or_default idealRequestChain' defaultIdealRequestChain,
     trainingData = (case trainingData' of None \<Rightarrow> [] | Some d \<Rightarrow> d) \<rparr>"

text \<open>The request object of \<open>create\<close>, \<open>compare\<close> and \<open>calculate\<close>.\<close>

record request =
  httpVersion :: jsopt
  acceptEncoding :: jsopt
  contentType :: jsopt
  connection :: jsopt
  remoteFamily :: jsopt
  remotePort :: jsopt
  userAgent :: jsopt
  acceptLanguage :: jsopt
  referer :: jsopt
  remoteAddress :: jsopt

section \<open>The libraries\<close>

text \<open>
  The six required modules are parameters of the model; their calls are taken to return.
  What the token codec signs is the claims object \<open>{identifier, properties}\<close>,
  serialised when \<open>jwt.sign\<close> runs; what it verifies comes back as decoded claims,
  where a missing \<open>identifier\<close> reads as \<open>undefined\<close>. The fields the codec
  manages itself (\<open>iat\<close>, \<open>iss\<close>, \<open>aud\<close>) are left out.
\<close>

datatype props = Primitive jsval | Object object

record claims =
  "identifier" :: jsval
  properties :: props

text \<open>
  \<open>levenshtein\<close> is \<open>levenshtein.getAsync\<close>, as the pair its callback receives: an
  error or the distance. \<open>brain_train\<close> is \<open>new brain.NeuralNetwork()\<close> followed by
  \<open>net.train\<close>, which starts from random weights: the \<open>nat\<close> is that draw.
  \<open>brain_run net data\<close> is \<open>net.run(data).integrity\<close>. \<open>number_toString\<close> is the
  conversion of the language itself, applied when a number is concatenated to a string.
\<close>

record ('net, 'tok) libraries =
  levenshtein :: "jsstring \<Rightarrow> jsstring \<Rightarrow> string + nat"
  brain_train :: "nat \<Rightarrow> example list \<Rightarrow> 'net"
  brain_run :: "'net \<Rightarrow> input \<Rightarrow> double"
  url_parse :: "jsstring \<Rightarrow> urlparts"
  sha256_hex :: "jsstring \<Rightarrow> jsstring"
  number_toString :: "jsnum \<Rightarrow> jsstring"
  jwt_sign :: "claims \<Rightarrow> jwtConfig \<Rightarrow> 'tok"
  jwt_verify :: "'tok \<Rightarrow> jwtConfig \<Rightarrow> string + claims"

text \<open>What one call draws at random: the \<open>uuid.v4\<close> string and the weights of the network.\<close>

record entropy =
  uuid_v4 :: jsstring
  net_seed :: nat

text \<open>The library calls an operation makes, in order.\<close>

datatype 'tok libcall =
    NetTrain "example list"
  | LevGetAsync jsstring jsstring
  | NetRun input
  | Sha256 jsstring
  | JwtSign claims
  | JwtVerify 'tok

text \<open>
  How an operation ends: it invokes its success continuation (\<open>Done\<close>), or its failure
  continuation (\<open>Failed\<close>) with an error value or with \<open>true\<close>, or it throws.
\<close>

datatype failure = ErrorValue string | BoolTrue

datatype 'a outcome = Done 'a | Failed failure | Thrown string

section \<open>The operations of the generator (index.js, lines 74 to 303)\<close>

text \<open>
  \<open>calculate\<close> hands \<open>levenshtein.getAsync\<close> a plain function as its callback. The
  library calls it without a receiver, so \<open>this\<close> inside the callback is the global
  object of the (non-strict) module, not the generator, and \<open>this.botMatch\<close>,
  \<open>this.browserMatch\<close> and \<open>this.languageMatch\<close> read properties that the global
  object does not have: they are \<open>undefined\<close>. (\<open>create\<close> captures \<open>self\<close> for its
  own callback; \<open>calculate\<close> does not.)
\<close>

record receiver =
  this_botMatch :: matcher
  this_browserMatch :: matcher
  this_languageMatch :: matcher

definition callback_this :: receiver where
  "callback_this =
     \<lparr> this_botMatch = NoRegExp, this_browserMatch = NoRegExp, this_languageMatch = NoRegExp \<rparr>"

text \<open>Lines 230 to 235: the chain of \<open>calculate\<close>.\<close>

definition chain_of :: "generator \<Rightarrow> request \<Rightarrow> jsstring" where
  "chain_of g request =
     (if truthy_opt (httpVersion request)
        then substr0 5 (toString_opt (httpVersion request)) else blank) @ delimit g @
     (if truthy_opt (acceptEncoding request)
        then substr0 32 (toString_opt (acceptEncoding request)) else blank) @ delimit g @
     (if truthy_opt (contentType request)
        then substr0 32 (toString_opt (contentType request)) else blank) @ delimit g @
     (if truthy_opt (connection request)
        then substr0 16 (toString_opt (connection request)) else blank) @ delimit g @
     toString_opt (remoteFamily request) @ delimit g @
     toString_opt (remotePort request) @ delimit g"

text \<open>
  Lines 242 to 247: the object \<open>data\<close> built in the callback. The chain is not empty
  for a generator built by the constructor, whose delimiter is not empty.
\<close>

definition data_of ::
  "('net, 'tok) libraries \<Rightarrow> request \<Rightarrow> nat \<Rightarrow> jsstring \<Rightarrow> input" where
  "data_of L request distance chain =
     \<lparr> in_userAgent = userAgentTest (userAgent request)
                        (this_botMatch callback_this) (this_browserMatch callback_this),
       in_language = real_of_int
          (evaluateLanguage (acceptLanguage request) (this_languageMatch callback_this)),
       in_referer = real_of_int (evaluateReferer (url_parse L) (referer request)),
       in_requestData = real distance / real (length chain) \<rparr>"

definition calculate ::
  "('net, 'tok) libraries \<Rightarrow> generator \<Rightarrow> nat \<Rightarrow> request \<Rightarrow> 'tok libcall list \<times> double outcome"
  where
  "calculate L g seed request =
     (let net = brain_train L seed (trainingData g);
          chain = chain_of g request
      in case levenshtein L (idealRequestChain g) chain of
           Inl err \<Rightarrow>
             ([NetTrain (trainingData g), LevGetAsync (idealRequestChain g) chain],
              Failed (ErrorValue err))
         | Inr distance \<Rightarrow>
             (let data = data_of L request distance chain
              in ([NetTrain (trainingData g), LevGetAsync (idealRequestChain g) chain,
                   NetRun data],
                  Done (brain_run L net data))))"

text \<open>
  The claims \<open>createToken\<close> signs: \<open>{identifier: identifier, properties: properties || {}}\<close>,
  with the properties object as it is on the heap at that moment.
\<close>

fun serialise :: "heap \<Rightarrow> jsval \<Rightarrow> props" where
  "serialise h (VRef a) = Object (if a < length h then h ! a else Map.empty)"
| "serialise h v = Primitive v"

definition token_claims :: "heap \<Rightarrow> jsstring \<Rightarrow> jsval \<Rightarrow> claims" where
  "token_claims h identifier' properties' =
     \<lparr> identifier = VStr identifier',
       properties = (if truthy properties' then serialise h properties' else Object Map.empty) \<rparr>"

definition createToken ::
  "('net, 'tok) libraries \<Rightarrow> heap \<Rightarrow> jsstring \<Rightarrow> jsval \<Rightarrow> jwtConfig \<Rightarrow> 'tok" where
  "createToken L h identifier' properties' config =
     jwt_sign L (token_claims h identifier' properties') config"

text \<open>
  The resource id is documented as Mixed: a string, or a number, in which case
  \<open>resourceId + pepper\<close> is an addition of numbers.
\<close>

datatype resource_id = IdStr jsstring | IdNum nat

text \<open>Line 147: the argument of \<open>update\<close>, \<open>resourceId + pepper + ip + uuid.v4(...)\<close>.\<close>

definition hash_input ::
  "('net, 'tok) libraries \<Rightarrow> resource_id \<Rightarrow> jsnum \<Rightarrow> jsstring \<Rightarrow> jsstring \<Rightarrow> jsstring" where
  "hash_input L resourceId pepper ip uuid =
     (case resourceId of
        IdStr s \<Rightarrow> s @ number_toString L pepper
      | IdNum n \<Rightarrow> number_toString L (js_add (Fin n) pepper)) @ ip @ uuid"

text \<open>
  \<open>create\<close>. It returns the heap it leaves, the library calls it made, and how it ended;
  on success the continuation receives the token and the identifier. A request without a
  remote address makes \<open>ip.length\<close> throw inside the callback.
\<close>

definition create ::
  "('net, 'tok) libraries \<Rightarrow> generator \<Rightarrow> heap \<Rightarrow> request \<Rightarrow> resource_id \<Rightarrow> jsval \<Rightarrow> jsval \<Rightarrow>
   entropy \<Rightarrow> heap \<times> 'tok libcall list \<times> ('tok \<times> jsstring) outcome" where
  "create L g h request resourceId properties' version rnd =
     (let (h0, props) = (if \<not> truthy properties' then new_object h else (h, properties'))
      in case calculate L g (net_seed rnd) request of
           (calls, Failed e) \<Rightarrow> (h0, calls, Failed e)
         | (calls, Thrown t) \<Rightarrow> (h0, calls, Thrown t)
         | (calls, Done result) \<Rightarrow>
             (case remoteAddress request of
                Str ip \<Rightarrow>
                  (let pepper = pepper_of ip;
                       message = hash_input L resourceId pepper ip (uuid_v4 rnd);
                       resourceId' = sha256_hex L message;
                       h1 = assign h0 props ''version'' version;
                       h2 = assign h1 props ''integrity'' (VNum result);
                       token = createToken L h2 resourceId' props (jwtConfig g)
                   in (h2,
                       calls @ [Sha256 message, JwtSign (token_claims h2 resourceId' props)],
                       Done (token, resourceId')))
              | _ \<Rightarrow> (h0, calls, Thrown ''TypeError'')))"

text \<open>\<open>decode\<close>: \<open>if (err || !decoded.identifier) return error(err || !decoded.identifier)\<close>.\<close>

definition decode ::
  "('net, 'tok) libraries \<Rightarrow> generator \<Rightarrow> 'tok \<Rightarrow> 'tok libcall list \<times> claims outcome" where
  "decode L g token =
     (case jwt_verify L token (jwtConfig g) of
        Inl err \<Rightarrow> ([JwtVerify token], Failed (ErrorValue err))
      | Inr decoded \<Rightarrow>
          if \<not> truthy (identifier decoded) then ([JwtVerify token], Failed BoolTrue)
          else ([JwtVerify token], Done decoded))"

text \<open>\<open>compare\<close>: \<open>done(Math.abs(integrity - result) < 0.05)\<close>.\<close>

definition compare ::
  "('net, 'tok) libraries \<Rightarrow> generator \<Rightarrow> nat \<Rightarrow> double \<Rightarrow> request \<Rightarrow>
   'tok libcall list \<times> bool outcome" where
  "compare L g seed integrity request =
     (case calculate L g seed request of
        (calls, Done result) \<Rightarrow>
          (calls, Done (js_less (js_abs (js_sub integrity result)) tolerance))
      | (calls, Failed e) \<Rightarrow> (calls, Failed e)
      | (calls, Thrown t) \<Rightarrow> (calls, Thrown t))"

text \<open>\<open>extractHeaders\<close>, from the parts of an HTTP request object that it reads.\<close>

record incoming =
  inc_httpVersion :: jsopt
  inc_headers :: "string \<Rightarrow> jsopt"
  inc_remoteFamily :: jsopt
  inc_remotePort :: jsopt
  inc_remoteAddress :: jsopt

definition extractHeaders :: "incoming \<Rightarrow> request" where
  "extractHeaders r =
     \<lparr> httpVersion = inc_httpVersion r,
       acceptEncoding = inc_headers r ''accept-encoding'',
       contentType = inc_headers r ''content-type'',
       connection = inc_headers r ''connection'',
       remoteFamily = inc_remoteFamily r,
       remotePort = inc_remotePort r,
       userAgent = inc_headers r ''user-agent'',
       acceptLanguage = inc_headers r ''accept-language'',
       referer = inc_headers r ''referer'',
       remoteAddress = inc_remoteAddress r \<rparr>"

text \<open>\<open>train\<close>: \<open>this.trainingData.push({input: {...}, output: {integrity}})\<close>.\<close>

definition mk_example :: "real \<Rightarrow> real \<Rightarrow> real \<Rightarrow> real \<Rightarrow> real \<Rightarrow> example" where
  "mk_example userAgent' language' referer' requestData' integrity' =
     \<lparr> ex_input = \<lparr> in_userAgent = userAgent', in_language = language',
                    in_referer = referer', in_requestData = requestData' \<rparr>,
       ex_output_integrity = integrity' \<rparr>"


section \<open>Sequences of operations\<close>





section \<open>A sample instance of the libraries\<close>

text \<open>
  For evaluating the operations on concrete inputs: the edit distance computed row by
  row, a scorer that returns the user-agent signal in eighths, a digest that is constant,
  decimal digits for numbers, an identity codec whose tokens are the claims themselves,
  and a parser that finds an \<open>http:\<close> URL with a host everywhere.
\<close>

fun row_step :: "16 word \<Rightarrow> jsstring \<Rightarrow> nat list \<Rightarrow> nat \<Rightarrow> nat list" where
  "row_step x (y # ys) (p # q # ps) left =
     (let v = min (min (q + 1) (left + 1)) (p + (if x = y then 0 else 1))
      in v # row_step x ys (q # ps) v)"
| "row_step x _ _ left = []"

definition next_row :: "jsstring \<Rightarrow> nat list \<Rightarrow> 16 word \<Rightarrow> nat list" where
  "next_row ys prev x = (hd prev + 1) # row_step x ys prev (hd prev + 1)"

definition edit_distance :: "jsstring \<Rightarrow> jsstring \<Rightarrow> nat" where
  "edit_distance xs ys = last (foldl (next_row ys) [0 ..< Suc (length ys)] xs)"

fun decimal :: "nat \<Rightarrow> jsstring" where
  "decimal n =
     (if n < 10 then [word_of_nat (48 + n)]
      else decimal (n div 10) @ [word_of_nat (48 + n mod 10)])"

declare decimal.simps [simp del]

definition sample_toString :: "jsnum \<Rightarrow> jsstring" where
  "sample_toString n =
     (case n of Fin k \<Rightarrow> decimal k | PosInf \<Rightarrow> js ''Infinity'' | NaN \<Rightarrow> js ''NaN'')"

text \<open>A number between 0 and 1 cut down to a multiple of one eighth, as a double.\<close>

definition eighths :: "real \<Rightarrow> double" where
  "eighths x = Dyadic \<lfloor>x * 8\<rfloor> (- 3)"

definition sample_libraries :: "(unit, claims) libraries" where
  "sample_libraries =
     \<lparr> levenshtein = (\<lambda>a b. Inr (edit_distance a b)),
       brain_train = (\<lambda>seed examples. ()),
       brain_run = (\<lambda>net data. eighths (in_userAgent data)),
       url_parse = (\<lambda>s. \<lparr> protocol = Str (js ''http:''), slashes = True, auth = Null,
                          host = Str (js ''localhost''), port = Null \<rparr>),
       sha256_hex = (\<lambda>s. replicate 64 0x30),
       number_toString = sample_toString,
       jwt_sign = (\<lambda>c config. c),
       jwt_verify = (\<lambda>t config. Inr t) \<rparr>"

text \<open>The same, with a distance computation that fails.\<close>

definition failing_libraries :: "(unit, claims) libraries" where
  "failing_libraries = sample_libraries \<lparr> levenshtein := (\<lambda>a b. Inl ''error'') \<rparr>"

text \<open>The generator and the request of the repository's test (test.js).\<close>

definition test_generator :: generator where
  "test_generator =
     TokenGenerator (Some [mk_example 1 1 1 0 1, mk_example 0 0 0 1 (1 / 1000)])
       (Str (js ''test'')) (Str (js ''localhost'')) (Str (js ''localhost''))
       None None None None None None"

definition test_request :: request where
  "test_request =
     \<lparr> httpVersion = Str (js ''1.1''),
       acceptEncoding = Str (js ''gzip, deflate''),
       contentType = Str (js ''application/json''),
       connection = Str (js ''keep-alive''),
       remoteFamily = Str (js ''IPv4''),
       remotePort = Str (js ''443''),
       userAgent = Str (js ''Mozilla/5.0 (Windows NT 6.1) Gecko/20100101 Firefox/43.0''),
       acceptLanguage = Str (js ''en-US''),
       referer = Str (js ''http://localhost''),
       remoteAddress = Str (js ''127.0.0.1'') \<rparr>"

definition test_entropy :: entropy where
  "test_entropy =
     \<lparr> uuid_v4 = js ''110ec58a-a0f2-4ac4-8393-c866d813b8d1'', net_seed = 0 \<rparr>"

text \<open>The sample libraries with a scorer that returns a given score.\<close>

definition scoring_libraries :: "double \<Rightarrow> (unit, claims) libraries" where
  "scoring_libraries x = sample_libraries \<lparr> brain_run := (\<lambda>net data. x) \<rparr>"

text \<open>
  Libraries whose network depends on its random initial weights: training keeps the
  parity of the draw, and the trained network returns 0.25 or 0.75 accordingly. Their
  digest returns the string it is given, so it never collides.
\<close>

definition seeded_libraries :: "(nat, claims) libraries" where
  "seeded_libraries =
     \<lparr> levenshtein = (\<lambda>a b. Inr (edit_distance a b)),
       brain_train = (\<lambda>seed examples. seed mod 2),
       brain_run = (\<lambda>net data. Dyadic (1 + 2 * int net) (- 2)),
       url_parse = (\<lambda>s. \<lparr> protocol = Str (js ''http:''), slashes = True, auth = Null,
                          host = Str (js ''localhost''), port = Null \<rparr>),
       sha256_hex = (\<lambda>s. s),
       number_toString = sample_toString,
       jwt_sign = (\<lambda>c config. c),
       jwt_verify = (\<lambda>t config. Inr t) \<rparr>"

text \<open>Two more draws: another identifier with other weights, and with weights of the same parity.\<close>

definition second_entropy :: entropy where
  "second_entropy =
     \<lparr> uuid_v4 = js ''7d444840-9dc0-11d1-b245-5ffdce74fad2'', net_seed = 1 \<rparr>"

definition third_entropy :: entropy where
  "third_entropy =
     \<lparr> uuid_v4 = js ''7d444840-9dc0-11d1-b245-5ffdce74fad2'', net_seed = 2 \<rparr>"

text \<open>The doubles nearest to 0.054 and to 0.004.\<close>

definition recorded_0_054 :: double where
  "recorded_0_054 = Dyadic 7782220156096217 (- 57)"

definition fresh_0_004 :: double where
  "fresh_0_004 = Dyadic 1152921504606847 (- 58)"

text \<open>A request with no field at all, and the test request with a blank user agent.\<close>

definition empty_request :: request where
  "empty_request =
     \<lparr> httpVersion = Undefined, acceptEncoding = Undefined, contentType = Undefined,
       connection = Undefined, remoteFamily = Undefined, remotePort = Undefined,
       userAgent = Undefined, acceptLanguage = Undefined, referer = Undefined,
       remoteAddress = Undefined \<rparr>"

definition blank_agent_request :: request where
  "blank_agent_request = test_request \<lparr> userAgent := Str (js '' '') \<rparr>"

text \<open>A caller's properties object \<open>{version: "0.9", user: "bob"}\<close>, alone on the heap.\<close>

definition caller_object :: object where
  "caller_object = [''version'' \<mapsto> VStr (js ''0.9''), ''user'' \<mapsto> VStr (js ''bob'')]"

definition caller_heap :: heap where
  "caller_heap = [caller_object]"

text \<open>Claims that verify and carry an empty string as their identifier.\<close>

definition empty_identifier_claims :: claims where
  "empty_identifier_claims = \<lparr> identifier = VStr [], properties = Object Map.empty \<rparr>"

section \<open>Notions the properties are stated with\<close>

text \<open>Reading a property of decoded properties, as \<open>decoded.properties.version\<close> does.\<close>

fun get_prop :: "props \<Rightarrow> string \<Rightarrow> jsval" where
  "get_prop (Object m) k = (case m k of None \<Rightarrow> VUndefined | Some v \<Rightarrow> v)"
| "get_prop (Primitive v) k = VUndefined"

text \<open>A string of 64 lower-case hexadecimal digits, the form of \<open>digest('hex')\<close> for SHA-256.\<close>

definition is_hex_digit :: "16 word \<Rightarrow> bool" where
  "is_hex_digit c \<longleftrightarrow> (0x30 \<le> c \<and> c \<le> 0x39) \<or> (0x61 \<le> c \<and> c \<le> 0x66)"

definition is_hex64 :: "jsstring \<Rightarrow> bool" where
  "is_hex64 s \<longleftrightarrow> length s = 64 \<and> list_all is_hex_digit s"

text \<open>The resource id as a value, to compare an identifier with.\<close>

fun id_value :: "resource_id \<Rightarrow> jsval" where
  "id_value (IdStr s) = VStr s"
| "id_value (IdNum n) = VNum (Dyadic (int n) 0)"

text \<open>The object the caller passed as \<open>properties\<close>; none (or a falsy value) counts as empty.\<close>

fun caller_properties :: "heap \<Rightarrow> jsval \<Rightarrow> object" where
  "caller_properties h (VRef a) = (if a < length h then h ! a else Map.empty)"
| "caller_properties h v = Map.empty"

text \<open>\<open>properties\<close> is an object of the heap, or is absent or falsy.\<close>

fun object_or_absent :: "heap \<Rightarrow> jsval \<Rightarrow> bool" where
  "object_or_absent h (VRef a) = (a < length h)"
| "object_or_absent h v = (\<not> truthy v)"

text \<open>\<open>create\<close> followed by \<open>decode\<close> of the token it produced.\<close>

definition round_trip ::
  "('net, 'tok) libraries \<Rightarrow> generator \<Rightarrow> heap \<Rightarrow> request \<Rightarrow> resource_id \<Rightarrow> jsval \<Rightarrow> jsval \<Rightarrow>
   entropy \<Rightarrow> claims outcome" where
  "round_trip L g h request resourceId properties' version rnd =
     (case snd (snd (create L g h request resourceId properties' version rnd)) of
        Done (token, resourceId') \<Rightarrow> snd (decode L g token)
      | Failed e \<Rightarrow> Failed e
      | Thrown t \<Rightarrow> Thrown t)"

text \<open>The number of tests that hold, out of a list of them.\<close>

definition count_true :: "bool list \<Rightarrow> nat" where
  "count_true bs = length (filter (\<lambda>b. b) bs)"

definition matches :: "matcher \<Rightarrow> jsstring \<Rightarrow> bool" where
  "matches m s \<longleftrightarrow> search s m \<noteq> -1"

text \<open>
  The user-agent score in the words of the specification: 0 for a missing or empty
  agent, otherwise the share of six tests that hold, with the matchers the generator was
  configured with.
\<close>

definition specified_userAgentScore :: "generator \<Rightarrow> jsopt \<Rightarrow> real" where
  "specified_userAgentScore g agent =
     (case agent of
        Str s \<Rightarrow>
          if s = [] then 0
          else real (count_true [\<not> matches (botMatch g) s, matches (browserMatch g) s,
                    0x2E \<in> set s, 0x28 \<in> set s, 0x29 \<in> set s, 0x2F \<in> set s]) / 6
      | _ \<Rightarrow> 0)"

text \<open>
  The request chain in the words of the specification: every missing field contributes
  the empty string.
\<close>

fun or_empty :: "jsopt \<Rightarrow> jsstring" where
  "or_empty (Str s) = s"
| "or_empty _ = []"

definition specified_chain :: "generator \<Rightarrow> request \<Rightarrow> jsstring" where
  "specified_chain g request =
     take 5 (or_empty (httpVersion request)) @ delimit g @
     take 32 (or_empty (acceptEncoding request)) @ delimit g @
     take 32 (or_empty (contentType request)) @ delimit g @
     take 16 (or_empty (connection request)) @ delimit g @
     or_empty (remoteFamily request) @ delimit g @
     or_empty (remotePort request) @ delimit g"

text \<open>
  The pepper in the words of the specification: the product of the character codes under
  unsigned multiplication that wraps around at a fixed width \<open>w\<close>. \<open>exact_product\<close> is
  the product in the integers.
\<close>

fun wrapping_loop :: "nat \<Rightarrow> nat \<Rightarrow> jsstring \<Rightarrow> nat" where
  "wrapping_loop w pepper [] = pepper"
| "wrapping_loop w pepper (c # cs) = wrapping_loop w ((pepper * unat c) mod 2 ^ w) cs"

definition wrapping_product :: "nat \<Rightarrow> jsstring \<Rightarrow> nat" where
  "wrapping_product w ip = wrapping_loop w (1 mod 2 ^ w) ip"

definition exact_product :: "jsstring \<Rightarrow> nat" where
  "exact_product ip = prod_list (map unat ip)"

text \<open>A number that is neither zero nor \<open>NaN\<close>.\<close>

definition positive_num :: "jsnum \<Rightarrow> bool" where
  "positive_num x = (case x of Fin k \<Rightarrow> 0 < k | PosInf \<Rightarrow> True | NaN \<Rightarrow> False)"


text \<open>
  Of a \<open>create\<close> that succeeds: the value of its variable \<open>properties\<close> after
  line 137, and the heap after the two assignments of lines 151 and 152.
\<close>

definition properties_used :: "heap \<Rightarrow> jsval \<Rightarrow> jsval" where
  "properties_used h p = (if truthy p then p else VRef (length h))"

definition heap_after :: "heap \<Rightarrow> jsval \<Rightarrow> jsval \<Rightarrow> double \<Rightarrow> heap" where
  "heap_after h p v score =
     assign (assign (if truthy p then h else h @ [Map.empty]) (properties_used h p)
               ''version'' v)
       (properties_used h p) ''integrity'' (VNum score)"

text \<open>The resource id is itself a string of 64 hexadecimal digits.\<close>

fun hex64_id :: "resource_id \<Rightarrow> bool" where
  "hex64_id (IdStr s) = is_hex64 s"
| "hex64_id (IdNum n) = False"

text \<open>The map of decoded properties; a primitive has no keys.\<close>

fun keys_of :: "props \<Rightarrow> object" where
  "keys_of (Object m) = m"
| "keys_of (Primitive v) = Map.empty"

text \<open>
  The string that a successful \<open>create\<close> hashes, and a collision of the digest on two
  strings.
\<close>

definition hashed_text ::
  "('net, 'tok) libraries \<Rightarrow> request \<Rightarrow> resource_id \<Rightarrow> entropy \<Rightarrow> jsstring" where
  "hashed_text L request resourceId rnd =
     (case remoteAddress request of
        Str ip \<Rightarrow> hash_input L resourceId (pepper_of ip) ip (uuid_v4 rnd)
      | _ \<Rightarrow> [])"

definition collision :: "('net, 'tok) libraries \<Rightarrow> jsstring \<Rightarrow> jsstring \<Rightarrow> bool" where
  "collision L x y \<longleftrightarrow> x \<noteq> y \<and> sha256_hex L x = sha256_hex L y"

section \<open>The comparison in double precision\<close>

text \<open>
  The test \<open>Math.abs(a - b) < 0.05\<close> on finite doubles, in terms of the real numbers
  they are. The double \<open>0.05\<close> is \<open>7205759403792794 / 2 ^ 57\<close>; its predecessor has an
  odd significand, so the midpoint \<open>14411518807585587 / 2 ^ 58\<close> of the two rounds up to
  it, and everything below the midpoint rounds to a smaller double.
\<close>

lemma pow_shift: "e \<le> g \<Longrightarrow> (2::real) ^ nat (g - e) * 2 powi e = 2 powi g"
proof -
  assume "e \<le> g"
  then have "(2::real) ^ nat (g - e) = 2 powi (g - e)"
    by (simp add: power_int_def)
  then show ?thesis
    by (simp add: power_int_add [symmetric])
qed

lemma dval_less:
  "js_less (Dyadic a g) (Dyadic b h) \<longleftrightarrow> of_int a * 2 powi g < (of_int b * 2 powi h :: real)"
proof -
  define e where "e = min g h"
  have eg: "e \<le> g" and eh: "e \<le> h" by (simp_all add: e_def)
  have pos: "(0::real) < 2 powi e" by simp
  have "js_less (Dyadic a g) (Dyadic b h) \<longleftrightarrow>
          a * 2 ^ nat (g - e) < b * 2 ^ nat (h - e)"
    by (simp add: e_def Let_def)
  also have "\<dots> \<longleftrightarrow> (of_int (a * 2 ^ nat (g - e)) :: real) < of_int (b * 2 ^ nat (h - e))"
    by (simp only: of_int_less_iff)
  also have "\<dots> \<longleftrightarrow> (of_int (a * 2 ^ nat (g - e)) :: real) * 2 powi e
                     < of_int (b * 2 ^ nat (h - e)) * 2 powi e"
    using pos by simp
  also have "(of_int (a * 2 ^ nat (g - e)) :: real) * 2 powi e = of_int a * 2 powi g"
    using pow_shift [OF eg] by (simp add: mult.assoc)
  also have "(of_int (b * 2 ^ nat (h - e)) :: real) * 2 powi e = of_int b * 2 powi h"
    using pow_shift [OF eh] by (simp add: mult.assoc)
  finally show ?thesis .
qed

lemma exact_difference:
  "of_int (m1 * 2 ^ nat (e1 - min e1 e2) - m2 * 2 ^ nat (e2 - min e1 e2)) * 2 powi (min e1 e2)
     = dval (Dyadic m1 e1) - dval (Dyadic m2 e2)"
proof -
  have "min e1 e2 \<le> e1" "min e1 e2 \<le> e2" by simp_all
  from pow_shift [OF this(1)] pow_shift [OF this(2)] show ?thesis
    by (simp add: algebra_simps)
qed

lemma core_small:
  fixes n :: nat and e :: int
  assumes n: "n < 2 ^ 53"
  shows "real n * 2 powi e < 7205759403792794 / 2 ^ 57 \<longleftrightarrow>
         real n * 2 powi e < 14411518807585587 / 2 ^ 58"
proof (cases "- 57 \<le> e")
  case True
  define j where "j = nat (e + 57)"
  define N where "N = n * 2 ^ j"
  have e: "e = int j - 57" using True by (simp add: j_def)
  have "(2::real) powi e = 2 powi (int j) / 2 powi 57"
    unfolding e by (rule power_int_diff) simp
  then have X: "real n * 2 powi e = real N / 2 ^ 57"
    by (simp add: N_def)
  have a: "real N / 2 ^ 57 < 7205759403792794 / 2 ^ 57 \<longleftrightarrow> N < 7205759403792794"
    by (simp add: divide_less_cancel)
  have "real N / 2 ^ 57 < 14411518807585587 / 2 ^ 58 \<longleftrightarrow>
          2 * real N < 14411518807585587"
    by (simp add: field_simps)
  also have "\<dots> \<longleftrightarrow> real (2 * N) < real (14411518807585587 :: nat)"
    by simp
  also have "\<dots> \<longleftrightarrow> 2 * N < 14411518807585587"
    by (simp only: of_nat_less_iff)
  finally have b: "real N / 2 ^ 57 < 14411518807585587 / 2 ^ 58 \<longleftrightarrow>
          2 * N < 14411518807585587" .
  show ?thesis unfolding X a b by arith
next
  case False
  then have "(2::real) powi e \<le> 2 powi (- 58)"
    by (intro power_int_increasing) auto
  then have "real n * 2 powi e \<le> real n * 2 powi (- 58)"
    by (rule mult_left_mono) simp
  also have "\<dots> < 2 ^ 53 * 2 powi (- 58)"
    using n by (intro mult_strict_right_mono) simp_all
  also have "\<dots> = 1 / 32"
    by (simp add: power_int_minus)
  finally have "real n * 2 powi e < 1 / 32" .
  then show ?thesis by simp
qed

lemma tie_linear:
  fixes a b c k r :: nat
  shows "c + k = 2 * b \<Longrightarrow> 0 < k \<Longrightarrow> b \<le> a \<Longrightarrow> \<not> 2 * (a + r) < c"
    and "c + k = 2 * b \<Longrightarrow> r < k \<Longrightarrow> a + 2 * k \<le> b \<Longrightarrow> 2 * (a + r) < c"
    and "c + k = 2 * b \<Longrightarrow> b = a + k \<Longrightarrow> (2 * (a + r) < c \<longleftrightarrow> 2 * r < k)"
  by auto

lemma tie_arith:
  fixes q r K C D :: nat
  assumes D: "D + 1 = 2 * C" and K: "0 < K"
  shows "C \<le> q \<Longrightarrow> \<not> 2 * (q * K + r) < D * K"
    and "q + 2 \<le> C \<Longrightarrow> r < K \<Longrightarrow> 2 * (q * K + r) < D * K"
    and "q + 1 = C \<Longrightarrow> (2 * (q * K + r) < D * K \<longleftrightarrow> 2 * r < K)"
proof -
  have "(D + 1) * K = 2 * C * K" by (simp only: D)
  then have DK: "D * K + K = 2 * (C * K)" by (simp add: add_mult_distrib)
  {
    assume "C \<le> q"
    then have "C * K \<le> q * K" by (rule mult_le_mono1)
    with DK K show "\<not> 2 * (q * K + r) < D * K" by (rule tie_linear(1))
  next
    assume "q + 2 \<le> C" and r: "r < K"
    then have "(q + 2) * K \<le> C * K" by (intro mult_le_mono1)
    then have "q * K + 2 * K \<le> C * K" by (simp only: add_mult_distrib)
    with DK r show "2 * (q * K + r) < D * K" by (rule tie_linear(2))
  next
    assume "q + 1 = C"
    then have "C * K = (q + 1) * K" by simp
    then have "C * K = q * K + K" by (simp only: add_mult_distrib mult_1)
    with DK show "2 * (q * K + r) < D * K \<longleftrightarrow> 2 * r < K" by (rule tie_linear(3))
  }
qed

lemma core_big:
  fixes n :: nat and e :: int
  assumes n: "2 ^ 53 \<le> n"
  defines "k \<equiv> floorlog 2 n - 53"
  defines "q \<equiv> n div 2 ^ k" and "r \<equiv> n mod 2 ^ k"
  defines "q' \<equiv> (if 2 * r > 2 ^ k \<or> (2 * r = 2 ^ k \<and> odd q) then q + 1 else q)"
  shows "real q' * 2 powi (e + int k) < 7205759403792794 / 2 ^ 57 \<longleftrightarrow>
         real n * 2 powi e < 14411518807585587 / 2 ^ 58"
proof -
  have pos: "0 < n" using n by (simp add: order.strict_trans2 [OF _ n])
  have "Suc 53 \<le> floorlog 2 n"
    using n by (intro floorlog_ge_SucI) simp_all
  then have fl: "floorlog 2 n = k + 53" by (simp add: k_def)
  have b: "2 ^ (floorlog 2 n - 1) \<le> n \<and> n < 2 ^ floorlog 2 n"
    using pos by (intro floorlog_bounds) simp_all
  have "floorlog 2 n - 1 = k + 52" by (simp add: fl)
  with b fl have "2 ^ (52 + k) \<le> n" and "n < 2 ^ (53 + k)"
    by (simp_all add: add.commute)
  then have lo: "2 ^ 52 * 2 ^ k \<le> n" and hi: "n < 2 ^ 53 * 2 ^ k"
    by (simp_all only: power_add)
  have qlo: "2 ^ 52 \<le> q"
    unfolding q_def using lo by (simp add: less_eq_div_iff_mult_less_eq)
  have qhi: "q < 2 ^ 53"
    unfolding q_def using hi by (rule less_mult_imp_div_less)
  have nqr: "n = q * 2 ^ k + r"
    unfolding q_def r_def by (rule div_mult_mod_eq [symmetric])
  have rk: "r < 2 ^ k"
    by (simp add: r_def)
  have q'cases: "q' = q \<or> q' = q + 1"
    by (simp add: q'_def)
  define P where "P = (2::real) powi (e + int k)"
  have Ppos: "0 < P" by (simp add: P_def)
  have "P = 2 powi e * 2 ^ k"
    by (simp add: P_def power_int_add)
  then have pe: "2 powi e = P / 2 ^ k"
    by simp
  have X: "real n * 2 powi e = (real q * 2 ^ k + real r) * P / 2 ^ k"
    by (simp add: nqr pe)
  have Xlo: "real q * P \<le> real n * 2 powi e"
  proof -
    have "real q * P = (real q * 2 ^ k) * P / 2 ^ k" by simp
    also have "\<dots> \<le> (real q * 2 ^ k + real r) * P / 2 ^ k"
      using Ppos by (intro divide_right_mono mult_right_mono) simp_all
    finally show ?thesis by (simp only: X)
  qed
  have Xhi: "real n * 2 powi e < (real q + 1) * P"
  proof -
    have "real r < 2 ^ k" using rk
      by (metis of_nat_less_iff of_nat_numeral of_nat_power)
    then have "(real q * 2 ^ k + real r) * P / 2 ^ k < (real q * 2 ^ k + 2 ^ k) * P / 2 ^ k"
      using Ppos by (intro divide_strict_right_mono mult_strict_right_mono) simp_all
    also have "\<dots> = (real q + 1) * P"
      by (simp add: field_simps)
    finally show ?thesis by (simp only: X)
  qed
  have Ylo: "real q * P \<le> real q' * P" and Yhi: "real q' * P \<le> (real q + 1) * P"
    using q'cases Ppos by auto
  have q52: "2 ^ 52 \<le> real q" and q53: "real q + 1 \<le> 2 ^ 53"
    using qlo qhi
    by (metis of_nat_le_iff of_nat_numeral of_nat_power,
        metis Suc_leI of_nat_Suc of_nat_le_iff of_nat_numeral of_nat_power add.commute)
  consider "- 56 \<le> e + int k" | "e + int k \<le> - 58" | "e + int k = - 57" by linarith
  then show ?thesis
  proof cases
    case 1
    then have "(2::real) powi (- 56) \<le> P"
      unfolding P_def by (intro power_int_increasing) auto
    then have P56: "1 / 2 ^ 56 \<le> P" by (simp add: power_int_minus field_simps)
    have "2 ^ 52 * (1 / 2 ^ 56) \<le> real q * P"
      using q52 P56 by (intro mult_mono) simp_all
    then have "1 / 16 \<le> real q * P" by simp
    with Xlo Ylo have "1 / 16 \<le> real n * 2 powi e" and "1 / 16 \<le> real q' * P"
      by linarith+
    then show ?thesis unfolding P_def by simp
  next
    case 2
    then have "P \<le> (2::real) powi (- 58)"
      unfolding P_def by (intro power_int_increasing) auto
    then have P58: "P \<le> 1 / 2 ^ 58" by (simp add: power_int_minus field_simps)
    have "(real q + 1) * P \<le> 2 ^ 53 * (1 / 2 ^ 58)"
      using q53 P58 Ppos by (intro mult_mono) simp_all
    then have "(real q + 1) * P \<le> 1 / 32" by simp
    with Xhi Yhi have "real n * 2 powi e < 1 / 32" and "real q' * P \<le> 1 / 32"
      by linarith+
    then show ?thesis unfolding P_def by simp
  next
    case 3
    then have P57: "P = 1 / 2 ^ 57"
      by (simp add: P_def power_int_minus field_simps)
    have Y: "real q' * P < 7205759403792794 / 2 ^ 57 \<longleftrightarrow> q' < 7205759403792794"
      unfolding P57 by (simp add: divide_less_cancel)
    have "real n * 2 powi e = (2 * (real q * 2 ^ k + real r) / 2 ^ k) / 2 ^ 58"
      unfolding X P57 by (simp add: field_simps)
    then have "real n * 2 powi e < 14411518807585587 / 2 ^ 58 \<longleftrightarrow>
            2 * (real q * 2 ^ k + real r) / 2 ^ k < 14411518807585587"
      by (simp only: divide_less_cancel) simp
    also have "\<dots> \<longleftrightarrow>
            2 * (real q * 2 ^ k + real r) < 14411518807585587 * 2 ^ k"
      by (rule pos_divide_less_eq) simp
    also have "\<dots> \<longleftrightarrow> real (2 * (q * 2 ^ k + r)) < real (14411518807585587 * 2 ^ k)"
      by simp
    also have "\<dots> \<longleftrightarrow> 2 * (q * 2 ^ k + r) < 14411518807585587 * 2 ^ k"
      by (simp only: of_nat_less_iff)
    finally have Xn: "real n * 2 powi e < 14411518807585587 / 2 ^ 58 \<longleftrightarrow>
            2 * (q * 2 ^ k + r) < 14411518807585587 * 2 ^ k" .
    define K :: nat where "K = 2 ^ k"
    have Kpos: "0 < K" by (simp add: K_def)
    have rK: "r < K" using rk by (simp add: K_def)
    have q'K: "q' = (if 2 * r > K \<or> (2 * r = K \<and> odd q) then q + 1 else q)"
      by (simp add: q'_def K_def)
    have D: "(14411518807585587::nat) + 1 = 2 * 7205759403792794" by simp
    have main: "q' < 7205759403792794 \<longleftrightarrow> 2 * (q * K + r) < 14411518807585587 * K"
    proof -
      consider "7205759403792794 \<le> q" | "q + 2 \<le> 7205759403792794"
        | "q + 1 = 7205759403792794" by linarith
      then show ?thesis
      proof cases
        case 1
        from tie_arith(1) [OF D Kpos 1]
        have "\<not> 2 * (q * K + r) < 14411518807585587 * K" .
        moreover have "\<not> q' < 7205759403792794" using 1 q'cases by linarith
        ultimately show ?thesis by simp
      next
        case 2
        from tie_arith(2) [OF D Kpos 2 rK]
        have "2 * (q * K + r) < 14411518807585587 * K" .
        moreover have "q' < 7205759403792794" using 2 q'cases by linarith
        ultimately show ?thesis by simp
      next
        case 3
        then have "q = 7205759403792793" by simp
        then have "odd q" by simp
        then have "q' < 7205759403792794 \<longleftrightarrow> 2 * r < K"
          unfolding q'K using 3 by auto
        moreover from tie_arith(3) [OF D Kpos 3]
        have "2 * (q * K + r) < 14411518807585587 * K \<longleftrightarrow> 2 * r < K" .
        ultimately show ?thesis by simp
      qed
    qed
    show ?thesis
      using Y Xn main unfolding P_def K_def by simp
  qed
qed

lemma core:
  fixes n :: nat and e :: int
  defines "k \<equiv> floorlog 2 n - 53"
  defines "q \<equiv> n div 2 ^ k" and "r \<equiv> n mod 2 ^ k"
  defines "q' \<equiv> (if 2 * r > 2 ^ k \<or> (2 * r = 2 ^ k \<and> odd q) then q + 1 else q)"
  shows "real q' * 2 powi (e + int k) < 7205759403792794 / 2 ^ 57 \<longleftrightarrow>
         real n * 2 powi e < 14411518807585587 / 2 ^ 58"
proof (cases "n < 2 ^ 53")
  case True
  then have "floorlog 2 n \<le> 53" by (simp add: floorlog_le_iff)
  then have k: "k = 0" by (simp add: k_def)
  then have "q' = n" by (simp add: q'_def q_def r_def)
  with k core_small [OF True, of e] show ?thesis by simp
next
  case False
  then have "2 ^ 53 \<le> n" by simp
  from core_big [OF this, of e] show ?thesis
    unfolding k_def q_def r_def q'_def .
qed

lemma less_tolerance_round:
  assumes e: "- 1074 \<le> e"
  shows "js_less (js_abs (round_dyadic m e)) tolerance \<longleftrightarrow>
         real_of_int \<bar>m\<bar> * 2 powi e < 14411518807585587 / 2 ^ 58"
proof -
  define n where "n = nat \<bar>m\<bar>"
  define k where "k = floorlog 2 n - 53"
  define q where "q = n div 2 ^ k"
  define r where "r = n mod 2 ^ k"
  define q' where "q' = (if 2 * r > 2 ^ k \<or> (2 * r = 2 ^ k \<and> odd q) then q + 1 else q)"
  define g where "g = e + int k"
  have clamp: "max (floorlog 2 n - 53) (nat (- 1074 - e)) = k"
    using e by (simp add: k_def)
  have rd: "round_dyadic m e =
              (if 0 \<le> g \<and> 2 ^ 1024 \<le> q' * 2 ^ nat g
               then (if m < 0 then MinusInfinity else PlusInfinity)
               else Dyadic (sgn m * int q') g)"
    unfolding round_dyadic_def Let_def n_def [symmetric] clamp
    unfolding q_def [symmetric] r_def [symmetric] q'_def [symmetric] g_def [symmetric]
    by (rule refl)
  have n: "real n = real_of_int \<bar>m\<bar>"
    by (simp add: n_def)
  have c: "real q' * 2 powi g < 7205759403792794 / 2 ^ 57 \<longleftrightarrow>
           real_of_int \<bar>m\<bar> * 2 powi e < 14411518807585587 / 2 ^ 58"
    using core [of n e] unfolding k_def [symmetric] q_def [symmetric] r_def [symmetric]
      q'_def [symmetric] g_def [symmetric] n by simp
  have zero: "q' = 0" if "m = 0"
    using that by (simp add: q'_def q_def r_def n_def)
  have mag: "\<bar>sgn m * int q'\<bar> = int q'"
    using zero by (cases "m = 0") (simp_all add: abs_mult)
  show ?thesis
  proof (cases "0 \<le> g \<and> 2 ^ 1024 \<le> q' * 2 ^ nat g")
    case True
    then have "(2::real) ^ 1024 \<le> real (q' * 2 ^ nat g)"
      by (metis of_nat_le_iff of_nat_numeral of_nat_power)
    also have "real (q' * 2 ^ nat g) = real q' * 2 powi g"
      using True by (simp add: power_int_def)
    finally have "\<not> real q' * 2 powi g < 7205759403792794 / 2 ^ 57"
      by simp
    moreover have "\<not> js_less (js_abs (round_dyadic m e)) tolerance"
      using True by (simp add: rd tolerance_def)
    ultimately show ?thesis using c by simp
  next
    case False
    then have "js_abs (round_dyadic m e) = Dyadic (int q') g"
      by (simp add: rd mag)
    then have "js_less (js_abs (round_dyadic m e)) tolerance \<longleftrightarrow>
                 real q' * 2 powi g < 3602879701896397 * 2 powi (- 56)"
      by (simp add: tolerance_def dval_less del: js_less.simps)
    also have "(3602879701896397::real) * 2 powi (- 56) = 7205759403792794 / 2 ^ 57"
      by (simp add: power_int_minus)
    finally show ?thesis using c by simp
  qed
qed

lemma compare_characterisation:
  assumes "finite_double s" and "finite_double f"
  shows "js_less (js_abs (js_sub s f)) tolerance \<longleftrightarrow>
         \<bar>dval s - dval f\<bar> < 14411518807585587 / 2 ^ 58"
proof -
  from assms obtain m1 e1 m2 e2 where s: "s = Dyadic m1 e1" and f: "f = Dyadic m2 e2"
    by (cases s; cases f) simp_all
  define e where "e = min e1 e2"
  define M where "M = m1 * 2 ^ nat (e1 - e) - m2 * 2 ^ nat (e2 - e)"
  have e: "- 1074 \<le> e" using assms by (simp add: s f e_def)
  have "real_of_int \<bar>M\<bar> * 2 powi e = \<bar>real_of_int M * 2 powi e\<bar>"
    by (simp add: abs_mult)
  also have "real_of_int M * 2 powi e = dval s - dval f"
    unfolding M_def e_def s f by (rule exact_difference)
  finally have "real_of_int \<bar>M\<bar> * 2 powi e = \<bar>dval s - dval f\<bar>" .
  moreover have "js_sub s f = round_dyadic M e"
    by (simp add: s f M_def e_def Let_def)
  ultimately show ?thesis
    using less_tolerance_round [OF e, of M] by simp
qed

section \<open>Scoring and comparison\<close>

text \<open>\<open>calculate\<close> by the two results of the distance computation.\<close>

lemma calculate_cases:
  "calculate L g seed r =
     (case levenshtein L (idealRequestChain g) (chain_of g r) of
        Inl err \<Rightarrow> ([NetTrain (trainingData g), LevGetAsync (idealRequestChain g) (chain_of g r)],
                    Failed (ErrorValue err))
      | Inr d \<Rightarrow> ([NetTrain (trainingData g), LevGetAsync (idealRequestChain g) (chain_of g r),
                   NetRun (data_of L r d (chain_of g r))],
                  Done (brain_run L (brain_train L seed (trainingData g))
                          (data_of L r d (chain_of g r)))))"
  by (simp add: calculate_def Let_def split: sum.splits)

text \<open>
  When the distance is computed, the third library call runs the network on the data
  built from it, whose fourth signal is the distance divided by the length of the chain.
\<close>

lemma requestData_is_distance_over_length:
  "levenshtein L (idealRequestChain g) (chain_of g r) = Inr d \<Longrightarrow>
   fst (calculate L g seed r) ! 2 = NetRun (data_of L r d (chain_of g r)) \<and>
   in_requestData (data_of L r d (chain_of g r)) = real d / real (length (chain_of g r))"
  by (simp add: calculate_cases data_of_def)

text \<open>The sample scorer on the request of the test.\<close>

lemma snd_calculate_sample:
  "snd (calculate sample_libraries g seed test_request) = Done (Dyadic 6 (- 3))"
  by (simp add: calculate_cases sample_libraries_def test_request_def eighths_def
      data_of_def callback_this_def js_def trim_def is_js_whitespace_def and1_def)

lemma calculate_sample:
  "calculate sample_libraries g seed test_request =
     (fst (calculate sample_libraries g seed test_request), Done (Dyadic 6 (- 3)))"
  by (simp add: prod_eq_iff snd_calculate_sample)

text \<open>
  The library calls of \<open>calculate\<close>, and with them the four signals handed to the
  network, do not depend on the random draw; the score does, through the trained network.
\<close>

lemma signals_do_not_depend_on_the_draw:
  "fst (calculate L g seed r) = fst (calculate L g seed' r)"
  by (simp add: calculate_cases split: sum.splits)

section \<open>Claim C2: the comparison with a recorded score\<close>

text \<open>A finite double rounds to itself; the one tie that matters below.\<close>

lemma round_dyadic_exact:
  assumes "finite_double (Dyadic m e)"
  shows "round_dyadic m e = Dyadic m e"
proof -
  define n where "n = nat \<bar>m\<bar>"
  have n: "n < 2 ^ 53" and e: "- 1074 \<le> e" "e \<le> 971"
    using assms by (auto simp: n_def)
  have "floorlog 2 n \<le> 53" using n by (simp add: floorlog_le_iff)
  then have k: "max (floorlog 2 n - 53) (nat (- 1074 - e)) = 0"
    using e by simp
  have small: "\<not> (0 \<le> e \<and> 2 ^ 1024 \<le> n * 2 ^ nat e)"
  proof
    assume a: "0 \<le> e \<and> 2 ^ 1024 \<le> n * 2 ^ nat e"
    then have "nat e \<le> 971" using e by simp
    then have "(2::nat) ^ nat e \<le> 2 ^ 971" by (intro power_increasing) simp_all
    then have "n * 2 ^ nat e \<le> n * 2 ^ 971" by (rule mult_le_mono2)
    also have "\<dots> < 2 ^ 53 * 2 ^ 971" using n by simp
    also have "\<dots> = (2::nat) ^ 1024" by (simp add: power_add [symmetric])
    finally show False using a by simp
  qed
  have m: "sgn m * int n = m"
    by (simp add: n_def sgn_if)
  show ?thesis
    unfolding round_dyadic_def Let_def n_def [symmetric] k
    using small m by simp
qed

lemma floorlog_tie: "floorlog 2 14411518807585587 = 54"
  by (simp add: compute_floorlog)

lemma round_dyadic_tie:
  "round_dyadic 14411518807585587 (- 58) = Dyadic 7205759403792794 (- 57)"
  by (simp add: round_dyadic_def floorlog_tie Let_def)

lemma threshold: "(14411518807585587 :: real) / 2 ^ 58 = 5 / 100 - 1 / (5 * 2 ^ 58)"
  by simp

lemma not_finite_reports_false:
  "\<not> js_less (js_abs (js_sub PlusInfinity f)) tolerance"
  "\<not> js_less (js_abs (js_sub MinusInfinity f)) tolerance"
  "\<not> js_less (js_abs (js_sub NotANumber f)) tolerance"
  by (cases f; simp add: tolerance_def)+

lemma compare_Done:
  "calculate L g seed r = (calls, Done fresh) \<Longrightarrow>
   compare L g seed s r = (calls, Done (js_less (js_abs (js_sub s fresh)) tolerance))"
  by (simp add: compare_def)

text \<open>
  C2, amended. Whenever \<open>calculate\<close> succeeds on a request with the score \<open>fresh\<close>,
  \<open>compare\<close> with a recorded score \<open>s\<close> makes the same library calls and invokes its
  success continuation with the value of \<open>Math.abs(s - fresh) < 0.05\<close> as JavaScript
  computes it: the difference rounded to the nearest double, compared with the double
  nearest to 0.05. For finite \<open>s\<close> and \<open>fresh\<close> that value is true exactly when the
  exact \<open>|s - fresh|\<close> is below \<open>0.05 - 2 ^ -58 / 5\<close>; for a recorded score that is
  infinite or \<open>NaN\<close> it is false.
\<close>

theorem compare_in_double_precision:
  assumes "calculate L g seed r = (calls, Done fresh)"
  shows "compare L g seed s r =
           (calls, Done (js_less (js_abs (js_sub s fresh)) tolerance)) \<and>
         (finite_double s \<and> finite_double fresh \<longrightarrow>
            (snd (compare L g seed s r) = Done True \<longleftrightarrow>
               \<bar>dval s - dval fresh\<bar> < 5 / 100 - 1 / (5 * 2 ^ 58))) \<and>
         (s \<in> {PlusInfinity, MinusInfinity, NotANumber} \<longrightarrow>
            snd (compare L g seed s r) = Done False)"
proof -
  have c: "compare L g seed s r =
             (calls, Done (js_less (js_abs (js_sub s fresh)) tolerance))"
    using assms by (rule compare_Done)
  have "finite_double s \<and> finite_double fresh \<longrightarrow>
          (js_less (js_abs (js_sub s fresh)) tolerance \<longleftrightarrow>
             \<bar>dval s - dval fresh\<bar> < 5 / 100 - 1 / (5 * 2 ^ 58))"
    using compare_characterisation [of s fresh] by (simp only: threshold) blast
  moreover have "s \<in> {PlusInfinity, MinusInfinity, NotANumber} \<longrightarrow>
          \<not> js_less (js_abs (js_sub s fresh)) tolerance"
    using not_finite_reports_false [of fresh] by auto
  ultimately show ?thesis by (simp add: c)
qed

text \<open>
  C2, amended, at the request of the repository's test: the sample scorer gives 0.75; a
  recorded 0.75 is within tolerance, a recorded 0.5 and a recorded \<open>NaN\<close> are not.
\<close>

theorem compare_in_double_precision_witness:
  "snd (calculate sample_libraries test_generator 0 test_request) = Done (Dyadic 6 (- 3)) \<and>
   finite_double (Dyadic 3 (- 2)) \<and> finite_double (Dyadic 1 (- 1)) \<and>
   finite_double (Dyadic 6 (- 3)) \<and>
   snd (compare sample_libraries test_generator 0 (Dyadic 3 (- 2)) test_request) = Done True \<and>
   snd (compare sample_libraries test_generator 0 (Dyadic 1 (- 1)) test_request) = Done False \<and>
   snd (compare sample_libraries test_generator 0 NotANumber test_request) = Done False"
proof -
  note t = compare_in_double_precision [OF calculate_sample, of test_generator 0]
  have f: "finite_double (Dyadic 3 (- 2))" "finite_double (Dyadic 1 (- 1))"
    "finite_double (Dyadic 6 (- 3))"
    by simp_all
  have a: "\<bar>dval (Dyadic 3 (- 2)) - dval (Dyadic 6 (- 3))\<bar> < 5 / 100 - 1 / (5 * 2 ^ 58)"
    by (simp add: power_int_minus)
  have b: "\<not> \<bar>dval (Dyadic 1 (- 1)) - dval (Dyadic 6 (- 3))\<bar> < 5 / 100 - 1 / (5 * 2 ^ 58)"
    by (simp add: power_int_minus)
  from t [of "Dyadic 3 (- 2)"] f a
  have 1: "snd (compare sample_libraries test_generator 0 (Dyadic 3 (- 2)) test_request)
             = Done True" by blast
  from t [of "Dyadic 1 (- 1)"] f b
  have 2: "snd (compare sample_libraries test_generator 0 (Dyadic 1 (- 1)) test_request)
             \<noteq> Done True" by blast
  from t [of "Dyadic 1 (- 1)"]
  have "\<exists>x. snd (compare sample_libraries test_generator 0 (Dyadic 1 (- 1)) test_request)
             = Done x" by simp
  with 2 have 2: "snd (compare sample_libraries test_generator 0 (Dyadic 1 (- 1)) test_request)
             = Done False" by (metis (full_types))
  from t [of NotANumber]
  have 3: "snd (compare sample_libraries test_generator 0 NotANumber test_request)
             = Done False" by blast
  show ?thesis using f 1 2 3 by (simp add: snd_calculate_sample)
qed

lemma snd_calculate_scoring:
  "snd (calculate (scoring_libraries x) g seed r) = Done x"
  by (simp add: calculate_cases scoring_libraries_def sample_libraries_def)

text \<open>
  C2 as stated fails: with the recorded score 0.054 and the fresh score 0.004 (the doubles
  nearest to them) the exact difference is below 0.05, but it lies half-way between the
  double 0.05 and its predecessor and rounds to the double 0.05, so \<open>compare\<close> reports
  false.
\<close>

theorem compare_differs_from_the_exact_test:
  "finite_double recorded_0_054 \<and> finite_double fresh_0_004 \<and>
   snd (calculate (scoring_libraries fresh_0_004) test_generator 0 test_request)
     = Done fresh_0_004 \<and>
   \<bar>dval recorded_0_054 - dval fresh_0_004\<bar> < 5 / 100 \<and>
   snd (compare (scoring_libraries fresh_0_004) test_generator 0 recorded_0_054 test_request)
     = Done False"
proof -
  have "js_sub recorded_0_054 fresh_0_004 = round_dyadic 14411518807585587 (- 58)"
    by (simp add: recorded_0_054_def fresh_0_004_def Let_def)
  then have "\<not> js_less (js_abs (js_sub recorded_0_054 fresh_0_004)) tolerance"
    by (simp add: round_dyadic_tie tolerance_def)
  moreover have "calculate (scoring_libraries fresh_0_004) test_generator 0 test_request =
      (fst (calculate (scoring_libraries fresh_0_004) test_generator 0 test_request),
       Done fresh_0_004)"
    by (simp add: prod_eq_iff snd_calculate_scoring)
  from compare_Done [OF this, of recorded_0_054]
  have "snd (compare (scoring_libraries fresh_0_004) test_generator 0
      recorded_0_054 test_request) =
      Done (js_less (js_abs (js_sub recorded_0_054 fresh_0_004)) tolerance)"
    by simp
  ultimately have c: "snd (compare (scoring_libraries fresh_0_004) test_generator 0
      recorded_0_054 test_request) = Done False"
    by simp
  have d: "\<bar>dval recorded_0_054 - dval fresh_0_004\<bar> < 5 / 100"
    by (simp add: recorded_0_054_def fresh_0_004_def power_int_minus)
  have f: "finite_double recorded_0_054" "finite_double fresh_0_004"
    by (simp_all add: recorded_0_054_def fresh_0_004_def)
  show ?thesis
    using c d f snd_calculate_scoring [of fresh_0_004 test_generator 0 test_request]
    by (intro conjI)
qed

section \<open>Claim C3: when decode fails\<close>

text \<open>
  C3 as stated fails: claims that verify and do have an \<open>identifier\<close> field, holding
  the empty string, make \<open>decode\<close> invoke the failure continuation (with \<open>true\<close>).
\<close>

theorem decode_fails_on_empty_identifier:
  "jwt_verify sample_libraries empty_identifier_claims (jwtConfig test_generator)
     = Inr empty_identifier_claims \<and>
   identifier empty_identifier_claims \<noteq> VUndefined \<and>
   snd (decode sample_libraries test_generator empty_identifier_claims) = Failed BoolTrue"
  by (simp add: decode_def sample_libraries_def empty_identifier_claims_def)

text \<open>
  C3, amended. \<open>decode\<close> only calls the codec's verification. It succeeds, with the
  full decoded claims, exactly when the codec reports no error and the decoded
  \<open>identifier\<close> is truthy; it invokes the failure continuation exactly when the codec
  reports an error or the decoded \<open>identifier\<close> is falsy (missing, \<open>null\<close>, empty,
  zero or \<open>false\<close>); it never throws.
\<close>

theorem decode_outcome:
  "(snd (decode L g token) = Done d \<longleftrightarrow>
      jwt_verify L token (jwtConfig g) = Inr d \<and> truthy (identifier d)) \<and>
   ((\<exists>f. snd (decode L g token) = Failed f) \<longleftrightarrow>
      (\<exists>err. jwt_verify L token (jwtConfig g) = Inl err) \<or>
      (\<exists>c. jwt_verify L token (jwtConfig g) = Inr c \<and> \<not> truthy (identifier c))) \<and>
   (\<forall>t. snd (decode L g token) \<noteq> Thrown t) \<and>
   fst (decode L g token) = [JwtVerify token]"
  by (auto simp: decode_def split: sum.splits)

text \<open>C3, amended, on claims with the identifier \<open>ab\<close> and on claims with an empty one.\<close>

theorem decode_outcome_witness:
  "snd (decode sample_libraries test_generator
          \<lparr> identifier = VStr (js ''ab''), properties = Object Map.empty \<rparr>)
     = Done \<lparr> identifier = VStr (js ''ab''), properties = Object Map.empty \<rparr> \<and>
   (\<exists>f. snd (decode sample_libraries test_generator empty_identifier_claims) = Failed f)"
  using decode_outcome [of sample_libraries test_generator
          "\<lparr> identifier = VStr (js ''ab''), properties = Object Map.empty \<rparr>"
          "\<lparr> identifier = VStr (js ''ab''), properties = Object Map.empty \<rparr>"]
        decode_outcome [of sample_libraries test_generator empty_identifier_claims]
  by (simp add: sample_libraries_def empty_identifier_claims_def js_def)

section \<open>Claim C8: a failing distance computation\<close>

text \<open>
  C8. If the distance computation reports an error, then \<open>calculate\<close>, \<open>compare\<close> and
  \<open>create\<close> all invoke the failure continuation with that error. The only library
  calls are the training of the network and the distance computation itself: the network
  is not run, nothing is hashed and nothing is signed. \<open>create\<close> leaves every object of
  the heap as it was (it has at most allocated its empty default object).
\<close>

theorem distance_failure_fails_everything:
  assumes "levenshtein L (idealRequestChain g) (chain_of g r) = Inl err"
  shows "calculate L g seed r =
           ([NetTrain (trainingData g), LevGetAsync (idealRequestChain g) (chain_of g r)],
            Failed (ErrorValue err)) \<and>
         compare L g seed s r =
           ([NetTrain (trainingData g), LevGetAsync (idealRequestChain g) (chain_of g r)],
            Failed (ErrorValue err)) \<and>
         create L g h r resourceId p v rnd =
           (if truthy p then h else h @ [Map.empty],
            [NetTrain (trainingData g), LevGetAsync (idealRequestChain g) (chain_of g r)],
            Failed (ErrorValue err))"
  using assms by (simp add: calculate_cases compare_def create_def new_object_def)

text \<open>C8, on the test request with a distance computation that always fails.\<close>

theorem distance_failure_fails_everything_witness:
  "levenshtein failing_libraries (idealRequestChain test_generator)
     (chain_of test_generator test_request) = Inl ''error'' \<and>
   snd (calculate failing_libraries test_generator 0 test_request)
     = Failed (ErrorValue ''error'') \<and>
   snd (compare failing_libraries test_generator 0 (Dyadic 3 (- 2)) test_request)
     = Failed (ErrorValue ''error'') \<and>
   snd (snd (create failing_libraries test_generator caller_heap test_request
              (IdStr (js ''testResourceId'')) (VRef 0) (VStr (js ''1.0'')) test_entropy))
     = Failed (ErrorValue ''error'') \<and>
   fst (create failing_libraries test_generator caller_heap test_request
         (IdStr (js ''testResourceId'')) (VRef 0) (VStr (js ''1.0'')) test_entropy)
     = caller_heap"
proof -
  have f: "levenshtein failing_libraries (idealRequestChain test_generator)
     (chain_of test_generator test_request) = Inl ''error''"
    by (simp add: failing_libraries_def sample_libraries_def)
  show ?thesis
    using f distance_failure_fails_everything [OF f, of 0 "Dyadic 3 (- 2)" caller_heap
      "IdStr (js ''testResourceId'')" "VRef 0" "VStr (js ''1.0'')" test_entropy]
    by simp
qed

section \<open>Claim C7: the training store\<close>





section \<open>What a successful create does\<close>

text \<open>
  \<open>create\<close> succeeds exactly when \<open>calculate\<close> succeeds and the request has a remote
  address; its results are then as follows.
\<close>

lemma create_Done:
  assumes "calculate L g (net_seed rnd) r = (calls0, Done score)"
      and "remoteAddress r = Str ip"
  shows "create L g h r resourceId p v rnd =
           (heap_after h p v score,
            calls0 @ [Sha256 (hash_input L resourceId (pepper_of ip) ip (uuid_v4 rnd)),
                      JwtSign (token_claims (heap_after h p v score)
                         (sha256_hex L (hash_input L resourceId (pepper_of ip) ip (uuid_v4 rnd)))
                         (properties_used h p))],
            Done (createToken L (heap_after h p v score)
                    (sha256_hex L (hash_input L resourceId (pepper_of ip) ip (uuid_v4 rnd)))
                    (properties_used h p) (jwtConfig g),
                  sha256_hex L (hash_input L resourceId (pepper_of ip) ip (uuid_v4 rnd))))"
  using assms
  by (simp add: create_def new_object_def heap_after_def properties_used_def Let_def)

lemma create_DoneD:
  assumes "create L g h r resourceId p v rnd = (h', calls, Done (token, ident))"
  obtains calls0 score ip where
    "calculate L g (net_seed rnd) r = (calls0, Done score)" and "remoteAddress r = Str ip"
proof -
  obtain calls0 res where c: "calculate L g (net_seed rnd) r = (calls0, res)"
    by (cases "calculate L g (net_seed rnd) r")
  from assms c obtain score where res: "res = Done score"
    by (cases res) (auto simp: create_def new_object_def Let_def split: if_splits)
  from assms c res obtain ip where "remoteAddress r = Str ip"
    by (cases "remoteAddress r") (auto simp: create_def new_object_def Let_def split: if_splits)
  with c res that show thesis by blast
qed

lemma remoteAddress_test_request: "remoteAddress test_request = Str (js ''127.0.0.1'')"
  by (simp add: test_request_def)

section \<open>Claim C10: the caller's properties object\<close>

text \<open>
  C10. When \<open>create\<close> succeeds and \<open>properties\<close> is an object of the caller, that same
  object (same address on the heap) afterwards holds \<open>version\<close> set to the version
  argument and \<open>integrity\<close> set to the computed score, whatever those keys held
  before; its other keys and all other objects are unchanged. When \<open>properties\<close> is
  absent or falsy, a fresh object holding just these two keys is appended and no object of
  the caller changes. A new object is allocated only in that second case.
\<close>

theorem create_writes_into_callers_object:
  assumes "create L g h r resourceId p v rnd = (h', calls, Done (token, ident))"
      and "calculate L g (net_seed rnd) r = (calls0, Done score)"
  shows "(\<forall>a. p = VRef a \<and> a < length h \<longrightarrow>
            h' = h[a := (h ! a)(''version'' \<mapsto> v, ''integrity'' \<mapsto> VNum score)]) \<and>
         (\<not> truthy p \<longrightarrow>
            h' = h @ [[''version'' \<mapsto> v, ''integrity'' \<mapsto> VNum score]]) \<and>
         length h' = (if truthy p then length h else Suc (length h))"
proof -
  from assms(1) obtain c1 s1 ip where
    "calculate L g (net_seed rnd) r = (c1, Done s1)" and ip: "remoteAddress r = Str ip"
    by (rule create_DoneD)
  from create_Done [OF assms(2) ip, of h resourceId p v] assms(1)
  have h': "h' = heap_after h p v score" by simp
  show ?thesis
    unfolding h' heap_after_def properties_used_def
    by (cases p) (simp_all add: nth_append)
qed

text \<open>
  C10, on the test request: with the caller's object \<open>{version: "0.9", user: "bob"}\<close>
  passed as \<open>properties\<close>, and with no \<open>properties\<close> at all.
\<close>

theorem create_writes_into_callers_object_witness:
  "fst (create sample_libraries test_generator caller_heap test_request
          (IdStr (js ''testResourceId'')) (VRef 0) (VStr (js ''1.0'')) test_entropy)
     = [caller_object(''version'' \<mapsto> VStr (js ''1.0''), ''integrity'' \<mapsto> VNum (Dyadic 6 (- 3)))] \<and>
   fst (create sample_libraries test_generator caller_heap test_request
          (IdStr (js ''testResourceId'')) VUndefined (VStr (js ''1.0'')) test_entropy)
     = [caller_object, [''version'' \<mapsto> VStr (js ''1.0''), ''integrity'' \<mapsto> VNum (Dyadic 6 (- 3))]]"
proof -
  note calc = calculate_sample [of test_generator "net_seed test_entropy"]
  note cr = create_Done [OF calc remoteAddress_test_request,
      where h = caller_heap and resourceId = "IdStr (js ''testResourceId'')"
        and v = "VStr (js ''1.0'')"]
  show ?thesis
    using create_writes_into_callers_object [OF cr [where p = "VRef 0"] calc]
          create_writes_into_callers_object [OF cr [where p = VUndefined] calc]
    unfolding cr fst_conv by (simp add: caller_heap_def)
qed

section \<open>Claim C1: create followed by decode\<close>

lemma claims_of_create:
  assumes "object_or_absent h p"
  shows "token_claims (heap_after h p v score) ident (properties_used h p) =
           \<lparr> identifier = VStr ident,
             properties = Object ((caller_properties h p)
                            (''version'' \<mapsto> v, ''integrity'' \<mapsto> VNum score)) \<rparr>"
  using assms
  by (cases p) (simp_all add: token_claims_def heap_after_def properties_used_def nth_append)

lemma get_prop_keys_of:
  "get_prop ps k = (case keys_of ps k of None \<Rightarrow> VUndefined | Some x \<Rightarrow> x)"
  by (cases ps) simp_all

lemma is_hex64_nonempty: "is_hex64 s \<Longrightarrow> s \<noteq> []"
  by (auto simp: is_hex64_def)

lemma sample_codec:
  "\<forall>c. jwt_verify sample_libraries (jwt_sign sample_libraries c config) config = Inr c"
  by (simp add: sample_libraries_def)

lemma sample_digest: "\<forall>x. is_hex64 (sha256_hex sample_libraries x)"
  by (simp add: sample_libraries_def is_hex64_def is_hex_digit_def list_all_iff)

text \<open>
  C1, amended. Let \<open>create\<close> succeed with \<open>properties\<close> an object (or absent), let the
  codec return on verification the claims it signed, and let the digest be 64 hexadecimal
  digits. Then \<open>decode\<close> of the token succeeds with claims whose \<open>identifier\<close> is the
  identifier \<open>create\<close> returned, a string of 64 hexadecimal digits; it differs from the
  resource id unless that is itself such a string; \<open>properties.version\<close> is the version
  argument; and \<open>properties\<close> agrees with the caller's properties on every key other
  than \<open>version\<close> and \<open>integrity\<close>.
\<close>

theorem round_trip_claims:
  assumes "create L g h r resourceId p v rnd = (h', calls, Done (token, ident))"
      and "object_or_absent h p"
      and "\<forall>c. jwt_verify L (jwt_sign L c (jwtConfig g)) (jwtConfig g) = Inr c"
      and "\<forall>x. is_hex64 (sha256_hex L x)"
  shows "\<exists>d. round_trip L g h r resourceId p v rnd = Done d \<and>
           identifier d = VStr ident \<and> is_hex64 ident \<and>
           (\<not> hex64_id resourceId \<longrightarrow> identifier d \<noteq> id_value resourceId) \<and>
           get_prop (properties d) ''version'' = v \<and>
           caller_properties h p |` (- {''version'', ''integrity''})
             \<subseteq>\<^sub>m keys_of (properties d)"
proof -
  from assms(1) obtain calls0 score ip where
    calc: "calculate L g (net_seed rnd) r = (calls0, Done score)" and
    ip: "remoteAddress r = Str ip"
    by (rule create_DoneD)
  let ?ident = "sha256_hex L (hash_input L resourceId (pepper_of ip) ip (uuid_v4 rnd))"
  let ?d = "\<lparr> identifier = VStr ?ident,
              properties = Object ((caller_properties h p)
                             (''version'' \<mapsto> v, ''integrity'' \<mapsto> VNum score)) \<rparr>"
  from create_Done [OF calc ip, of h resourceId p v] assms(1)
  have ident: "ident = ?ident"
    and token: "token = createToken L (heap_after h p v score) ?ident (properties_used h p)
                  (jwtConfig g)"
    by simp_all
  have hex: "is_hex64 ?ident" using assms(4) by simp
  have "jwt_verify L token (jwtConfig g) = Inr ?d"
    unfolding token createToken_def using assms(3) claims_of_create [OF assms(2)] by simp
  then have "snd (decode L g token) = Done ?d"
    using hex by (simp add: decode_def is_hex64_nonempty)
  then have rt: "round_trip L g h r resourceId p v rnd = Done ?d"
    using assms(1) by (simp add: round_trip_def)
  have differs: "\<not> hex64_id resourceId \<longrightarrow> VStr ?ident \<noteq> id_value resourceId"
    using hex by (cases resourceId) auto
  have sup: "caller_properties h p |` (- {''version'', ''integrity''})
               \<subseteq>\<^sub>m (caller_properties h p)(''version'' \<mapsto> v, ''integrity'' \<mapsto> VNum score)"
    by (auto simp: map_le_def restrict_map_def)
  show ?thesis
    using rt hex differs sup unfolding ident by (intro exI [of _ ?d]) simp
qed

text \<open>
  C1, amended, with the sample libraries and the caller's object
  \<open>{version: "0.9", user: "bob"}\<close>.
\<close>

theorem round_trip_claims_witness:
  "case round_trip sample_libraries test_generator caller_heap test_request
          (IdStr (js ''testResourceId'')) (VRef 0) (VStr (js ''1.0'')) test_entropy of
     Done d \<Rightarrow> identifier d = VStr (replicate 64 0x30) \<and>
               identifier d \<noteq> VStr (js ''testResourceId'') \<and>
               get_prop (properties d) ''version'' = VStr (js ''1.0'') \<and>
               get_prop (properties d) ''user'' = VStr (js ''bob'')
   | _ \<Rightarrow> False"
proof -
  note calc = calculate_sample [of test_generator "net_seed test_entropy"]
  note cr = create_Done [OF calc remoteAddress_test_request,
      where h = caller_heap and resourceId = "IdStr (js ''testResourceId'')"
        and p = "VRef 0" and v = "VStr (js ''1.0'')"]
  have obj: "object_or_absent caller_heap (VRef 0)"
    by (simp add: caller_heap_def)
  have nohex: "\<not> hex64_id (IdStr (js ''testResourceId''))"
    by (simp add: is_hex64_def js_def)
  from round_trip_claims [OF cr obj sample_codec sample_digest]
  obtain d where d: "round_trip sample_libraries test_generator caller_heap test_request
          (IdStr (js ''testResourceId'')) (VRef 0) (VStr (js ''1.0'')) test_entropy = Done d"
    and i: "identifier d = VStr (sha256_hex sample_libraries
              (hash_input sample_libraries (IdStr (js ''testResourceId''))
                 (pepper_of (js ''127.0.0.1'')) (js ''127.0.0.1'') (uuid_v4 test_entropy)))"
    and n: "\<not> hex64_id (IdStr (js ''testResourceId'')) \<longrightarrow>
              identifier d \<noteq> id_value (IdStr (js ''testResourceId''))"
    and v: "get_prop (properties d) ''version'' = VStr (js ''1.0'')"
    and s: "caller_properties caller_heap (VRef 0) |` (- {''version'', ''integrity''})
              \<subseteq>\<^sub>m keys_of (properties d)"
    by blast
  from s have "keys_of (properties d) ''user'' = Some (VStr (js ''bob''))"
    by (auto simp: map_le_def caller_heap_def caller_object_def restrict_map_def dom_def
        split: if_splits)
  then have u: "get_prop (properties d) ''user'' = VStr (js ''bob'')"
    by (simp add: get_prop_keys_of)
  from i have i': "identifier d = VStr (replicate 64 0x30)"
    by (simp add: sample_libraries_def)
  show ?thesis
    using i' n nohex v u by (simp add: d)
qed

lemma round_trip_sample:
  "round_trip sample_libraries test_generator caller_heap test_request
      (IdStr (js ''testResourceId'')) (VRef 0) (VStr (js ''1.0'')) test_entropy =
   Done \<lparr> identifier = VStr (replicate 64 0x30),
          properties = Object (caller_object
             (''version'' \<mapsto> VStr (js ''1.0''), ''integrity'' \<mapsto> VNum (Dyadic 6 (- 3)))) \<rparr>"
proof -
  note calc = calculate_sample [of test_generator "net_seed test_entropy"]
  note cr = create_Done [OF calc remoteAddress_test_request,
      where h = caller_heap and resourceId = "IdStr (js ''testResourceId'')"
        and p = "VRef 0" and v = "VStr (js ''1.0'')"]
  have obj: "object_or_absent caller_heap (VRef 0)"
    by (simp add: caller_heap_def)
  show ?thesis
    unfolding round_trip_def cr
    by (simp add: decode_def createToken_def claims_of_create [OF obj])
       (simp add: sample_libraries_def caller_heap_def)
qed

text \<open>
  C1 as stated fails: the caller's \<open>{version: "0.9", user: "bob"}\<close> created with version
  \<open>1.0\<close> decodes to properties whose \<open>version\<close> is \<open>1.0\<close>, which is not a superset
  of what the caller passed.
\<close>

theorem round_trip_overwrites_version:
  "caller_object ''version'' = Some (VStr (js ''0.9'')) \<and>
   (case round_trip sample_libraries test_generator caller_heap test_request
          (IdStr (js ''testResourceId'')) (VRef 0) (VStr (js ''1.0'')) test_entropy of
      Done d \<Rightarrow> get_prop (properties d) ''version'' = VStr (js ''1.0'') \<and>
                \<not> caller_object \<subseteq>\<^sub>m keys_of (properties d)
    | _ \<Rightarrow> False)"
  unfolding round_trip_sample
  by (auto simp: map_le_def caller_object_def js_def)

section \<open>Claim C4: the user-agent score\<close>

lemma indexOf_ge: "- 1 \<le> indexOf s c"
  by (induction s) (simp_all add: Let_def)

lemma indexOf_found: "indexOf s c \<noteq> - 1 \<longleftrightarrow> c \<in> set s"
proof (induction s)
  case Nil
  show ?case by simp
next
  case (Cons x xs)
  show ?case
    using Cons.IH indexOf_ge [of xs c] by (auto simp: Let_def)
qed

lemma all_dropWhile: "(\<forall>x \<in> set (dropWhile P s). P x) \<longleftrightarrow> (\<forall>x \<in> set s. P x)"
proof
  assume a: "\<forall>x \<in> set (dropWhile P s). P x"
  have "dropWhile P s = []"
  proof (rule ccontr)
    assume n: "dropWhile P s \<noteq> []"
    then have "\<not> P (hd (dropWhile P s))" by (rule hd_dropWhile)
    moreover have "hd (dropWhile P s) \<in> set (dropWhile P s)" using n by simp
    ultimately show False using a by blast
  qed
  then show "\<forall>x \<in> set s. P x" by (simp add: dropWhile_eq_Nil_conv)
next
  assume "\<forall>x \<in> set s. P x"
  then show "\<forall>x \<in> set (dropWhile P s). P x" by (blast dest: set_dropWhileD)
qed

lemma trim_empty: "trim s = [] \<longleftrightarrow> (\<forall>c \<in> set s. is_js_whitespace c)"
  by (simp add: trim_def dropWhile_eq_Nil_conv all_dropWhile)

text \<open>
  The function \<open>userAgentTest\<close> by itself returns 0 for a missing agent and for one that
  is empty or consists of white space only (the guard is \<open>agent.trim() === ''\<close>); for any
  other agent it returns the number of tests that hold, divided by 6, among: no match of
  the bot pattern it is given, a match of the browser pattern it is given, and the presence
  of \<open>.\<close>, \<open>(\<close>, \<open>)\<close> and \<open>/\<close>. The score computed during scoring is 0 for a
  missing or blank agent.
\<close>

lemma userAgentTest_score:
  "userAgentTest agent bm wm =
     (case agent of
        Str s \<Rightarrow>
          if \<forall>c \<in> set s. is_js_whitespace c then 0
          else real (count_true [\<not> matches bm s, matches wm s,
                    0x2E \<in> set s, 0x28 \<in> set s, 0x29 \<in> set s, 0x2F \<in> set s]) / 6
      | _ \<Rightarrow> 0) \<and>
   ((case userAgent r of Str s \<Rightarrow> \<forall>c \<in> set s. is_js_whitespace c | _ \<Rightarrow> True) \<longrightarrow>
      in_userAgent (data_of L r d chain) = 0)"
proof -
  have "userAgentTest (Str s) bm wm =
          (if \<forall>c \<in> set s. is_js_whitespace c then 0
           else real (count_true [\<not> matches bm s, matches wm s,
                    0x2E \<in> set s, 0x28 \<in> set s, 0x29 \<in> set s, 0x2F \<in> set s]) / 6)" for s
    by (simp add: trim_empty indexOf_found matches_def count_true_def and1_def)
  then show ?thesis
    by (cases agent; cases "userAgent r") (simp_all add: data_of_def trim_empty)
qed

text \<open>
  With the default patterns the agent of the test request passes all six tests and
  \<open>Googlebot/2.1\<close> passes two.
\<close>

lemma userAgentTest_score_witness:
  "userAgentTest (userAgent test_request) defaultBotMatch defaultBrowserMatch = 1 \<and>
   userAgentTest (Str (js ''Googlebot/2.1'')) defaultBotMatch defaultBrowserMatch = 1 / 3 \<and>
   in_userAgent (data_of sample_libraries blank_agent_request 0 []) = 0"
  using userAgentTest_score [of "userAgent test_request" defaultBotMatch defaultBrowserMatch
          blank_agent_request sample_libraries 0 "[]"]
        userAgentTest_score [of "Str (js ''Googlebot/2.1'')" defaultBotMatch defaultBrowserMatch
          blank_agent_request sample_libraries 0 "[]"]
  by (simp add: test_request_def blank_agent_request_def js_def is_js_whitespace_def
      count_true_def matches_def defaultBotMatch_def defaultBrowserMatch_def words_ci_def
      lower_ascii_def)

text \<open>
  The agent consisting of one space is not empty, so the specified score with the default
  patterns is 1/6 (it matches no bot pattern); the guard makes the score 0.
\<close>

lemma blank_agent_scores_zero:
  "in_userAgent (data_of sample_libraries blank_agent_request 0 []) = 0 \<and>
   userAgentTest (userAgent blank_agent_request) (botMatch test_generator)
     (browserMatch test_generator) = 0 \<and>
   specified_userAgentScore test_generator (userAgent blank_agent_request) = 1 / 6"
  by (simp add: data_of_def blank_agent_request_def test_request_def js_def trim_def
      is_js_whitespace_def specified_userAgentScore_def count_true_def matches_def
      test_generator_def TokenGenerator_def defaultBotMatch_def defaultBrowserMatch_def
      words_ci_def lower_ascii_def)

text \<open>
  C4, at the request of the repository's test, whose agent is
  \<open>Mozilla/5.0 (Windows NT 6.1) Gecko/20100101 Firefox/43.0\<close>: whatever generator is
  used, the user-agent signal that \<open>calculate\<close> hands to the network is 5/6, because
  the callback reads the two patterns from \<open>this\<close>, which is not the generator: the
  bot test always counts as failed and the browser test as passed. With the patterns the
  generator is configured with (the defaults) the agent passes all six tests: the
  specified score, and the value of \<open>userAgentTest\<close> on those patterns, is 1.
\<close>

theorem scoring_ignores_the_configured_matchers:
  "(case fst (calculate sample_libraries g seed test_request) ! 2 of
      NetRun data \<Rightarrow> in_userAgent data = 5 / 6
    | _ \<Rightarrow> False) \<and>
   botMatch test_generator = defaultBotMatch \<and>
   browserMatch test_generator = defaultBrowserMatch \<and>
   specified_userAgentScore test_generator (userAgent test_request) = 1 \<and>
   userAgentTest (userAgent test_request) (botMatch test_generator)
     (browserMatch test_generator) = 1"
proof -
  have "levenshtein sample_libraries (idealRequestChain g) (chain_of g test_request)
          = Inr (edit_distance (idealRequestChain g) (chain_of g test_request))"
    by (simp add: sample_libraries_def)
  from requestData_is_distance_over_length [OF this, of seed]
  have "fst (calculate sample_libraries g seed test_request) ! 2 =
          NetRun (data_of sample_libraries test_request
            (edit_distance (idealRequestChain g) (chain_of g test_request))
            (chain_of g test_request))"
    by simp
  moreover have "in_userAgent (data_of sample_libraries test_request d c) = 5 / 6" for d c
    by (simp add: data_of_def callback_this_def test_request_def js_def trim_def
        is_js_whitespace_def and1_def)
  moreover have "specified_userAgentScore test_generator (userAgent test_request) = 1"
    by (simp add: specified_userAgentScore_def test_generator_def TokenGenerator_def
        test_request_def js_def count_true_def matches_def defaultBotMatch_def
        defaultBrowserMatch_def words_ci_def lower_ascii_def)
  moreover have "userAgentTest (userAgent test_request) (botMatch test_generator)
     (browserMatch test_generator) = 1"
    by (simp add: test_generator_def TokenGenerator_def test_request_def js_def trim_def
        is_js_whitespace_def and1_def defaultBotMatch_def defaultBrowserMatch_def
        words_ci_def lower_ascii_def)
  ultimately show ?thesis
    by (simp add: test_generator_def TokenGenerator_def)
qed

section \<open>Claim C5: the request chain\<close>

text \<open>With the network family and the port present, the chain is the specified one.\<close>

lemma chain_of_when_family_and_port_present:
  assumes "remoteFamily r = Str f" and "remotePort r = Str q"
  shows "chain_of g r = specified_chain g r"
proof -
  have "(if truthy_opt x then substr0 n (toString_opt x) else blank) = take n (or_empty x)"
    for x n
    by (cases x) (simp_all add: substr0_def blank_def)
  then show ?thesis
    using assms by (simp add: chain_of_def specified_chain_def)
qed

text \<open>
  C5, at a request without fields: \<open>calculate\<close> concatenates the text \<open>undefined\<close> for the
  missing network family and for the missing port, which have no guard as the four header
  fields have. Its chain has 24 characters where the specified chain has the 6 delimiters.
\<close>

theorem chain_of_missing_family_and_port:
  "chain_of test_generator empty_request =
     [0x2730, 0x2730, 0x2730, 0x2730] @ js ''undefined'' @ [0x2730] @ js ''undefined''
       @ [0x2730] \<and>
   specified_chain test_generator empty_request =
     [0x2730, 0x2730, 0x2730, 0x2730, 0x2730, 0x2730] \<and>
   length (chain_of test_generator empty_request) = 24 \<and>
   length (specified_chain test_generator empty_request) = 6"
  by (simp add: chain_of_def specified_chain_def empty_request_def test_generator_def
      TokenGenerator_def or_default_def defaultDelimit_def blank_def js_def)

section \<open>Claim C6: the pepper and the identifier\<close>

lemma round53_positive: "0 < n \<Longrightarrow> positive_num (round53 n)"
proof -
  assume n: "0 < n"
  define e where "e = floorlog 2 n - 53"
  have "2 ^ (floorlog 2 n - 1) \<le> n"
    using floorlog_bounds [of n 2] n by simp
  moreover have "(2::nat) ^ e \<le> 2 ^ (floorlog 2 n - 1)"
    unfolding e_def by (rule power_increasing) auto
  ultimately have le: "2 ^ e \<le> n" by linarith
  then have q: "0 < n div 2 ^ e"
    by (simp add: div_greater_zero_iff)
  show ?thesis
    using q n unfolding round53_def Let_def positive_num_def e_def [symmetric]
    by (auto split: jsnum.splits)
qed

lemma js_mul_positive:
  "positive_num p \<Longrightarrow> 0 < k \<Longrightarrow> positive_num (js_mul p (Fin k))"
proof (cases p)
  case (Fin a)
  assume "positive_num p" and "0 < k"
  with Fin have "0 < a * k" by (simp add: positive_num_def)
  then show ?thesis using Fin by (simp add: round53_positive)
qed (simp_all add: positive_num_def)

lemma pepper_loop_positive:
  "positive_num p \<Longrightarrow> \<forall>c \<in> set ip. c \<noteq> 0 \<Longrightarrow> positive_num (pepper_loop p ip)"
proof (induction ip arbitrary: p)
  case Nil
  then show ?case by simp
next
  case (Cons c cs)
  then have "0 < unat c" by (simp add: unat_gt_0)
  with Cons show ?case by (simp add: js_mul_positive)
qed

lemma wrapping_loop_mod:
  "wrapping_loop w p ip = (p * exact_product ip) mod 2 ^ w" if "p < 2 ^ w"
  using that
proof (induction ip arbitrary: p)
  case Nil
  then show ?case by (simp add: exact_product_def)
next
  case (Cons c cs)
  have "wrapping_loop w p (c # cs) = ((p * unat c) mod 2 ^ w * exact_product cs) mod 2 ^ w"
    using Cons.IH [of "(p * unat c) mod 2 ^ w"] by simp
  also have "\<dots> = (p * unat c * exact_product cs) mod 2 ^ w"
    by (simp add: mod_mult_left_eq)
  finally show ?case by (simp add: exact_product_def mult.assoc)
qed

lemma wrapping_product_mod: "wrapping_product w ip = exact_product ip mod 2 ^ w"
proof -
  have "(1::nat) mod 2 ^ w < 2 ^ w" by (rule mod_less_divisor) simp
  then have "wrapping_product w ip = ((1 mod 2 ^ w) * exact_product ip) mod 2 ^ w"
    unfolding wrapping_product_def by (rule wrapping_loop_mod)
  then show ?thesis by (simp add: mod_mult_left_eq)
qed

lemma exact_product_positive: "\<forall>c \<in> set ip. c \<noteq> 0 \<Longrightarrow> 0 < exact_product ip"
  by (induction ip) (simp_all add: exact_product_def unat_gt_0)

lemma pepper_loop_exact:
  "\<forall>c \<in> set ip. c \<noteq> 0 \<Longrightarrow> a * exact_product ip < 2 ^ 53 \<Longrightarrow>
   pepper_loop (Fin a) ip = Fin (a * exact_product ip)"
proof (induction ip arbitrary: a)
  case Nil
  then show ?case by (simp add: exact_product_def)
next
  case (Cons c cs)
  have pos: "0 < exact_product cs"
    using Cons.prems(1) by (simp add: exact_product_positive)
  have eq: "a * exact_product (c # cs) = a * unat c * exact_product cs"
    by (simp add: exact_product_def mult.assoc)
  have "a * unat c \<le> a * unat c * exact_product cs"
    using pos by simp
  with Cons.prems(2) eq have small: "a * unat c < 2 ^ 53" by linarith
  have "pepper_loop (Fin a) (c # cs) = pepper_loop (Fin (a * unat c)) cs"
    using small by (simp add: round53_def)
  also have "\<dots> = Fin (a * unat c * exact_product cs)"
    using Cons.IH [of "a * unat c"] Cons.prems eq by simp
  finally show ?case by (simp only: eq)
qed

lemma pepper_eleven: "pepper_of (js ''@@@@@@@@@@@'') = Fin (2 ^ 66)"
  by (simp add: js_def pepper_of_def round53_def compute_floorlog)

lemma pepper_broadcast:
  "pepper_of (js ''255.255.255.255'') = Fin 37875682661751462127730688"
  by (simp add: js_def pepper_of_def round53_def compute_floorlog)

text \<open>
  C6 as stated fails: for the address \<open>255.255.255.255\<close> the pepper is a number above
  \<open>2 ^ 84\<close> (the product, rounded to 53 significant bits), where multiplication wrapping
  around at 64 or at 32 bits gives other numbers; for the address made of eleven
  characters \<open>@\<close> (code 64) the pepper is \<open>2 ^ 66\<close>, where wrapping at 64 bits gives 0.
\<close>

theorem pepper_does_not_wrap:
  "pepper_of (js ''255.255.255.255'') = Fin 37875682661751462127730688 \<and>
   wrapping_product 64 (js ''255.255.255.255'') = 16072871769751757696 \<and>
   wrapping_product 32 (js ''255.255.255.255'') = 2222269312 \<and>
   pepper_of (js ''@@@@@@@@@@@'') = Fin (2 ^ 66) \<and>
   wrapping_product 64 (js ''@@@@@@@@@@@'') = 0"
  by (simp add: pepper_eleven pepper_broadcast) (simp add: wrapping_product_def js_def)

text \<open>
  C6, amended. When \<open>create\<close> succeeds for a string resource id and the digest is 64
  hexadecimal digits, the identifier is the digest of the resource id, the pepper as a
  string, the remote address and the random value, concatenated. The pepper is the product
  of the character codes in double precision: it is never zero or \<open>NaN\<close> when no code
  is zero, and it is the exact product whenever that is below \<open>2 ^ 53\<close>. It is not a
  product that wraps around: for every width some address has a different pepper.
\<close>

theorem identifier_derivation:
  assumes "create L g h r (IdStr s) p v rnd = (h', calls, Done (token, ident))"
      and "remoteAddress r = Str ip"
      and "\<forall>x. is_hex64 (sha256_hex L x)"
  shows "ident = sha256_hex L (s @ number_toString L (pepper_of ip) @ ip @ uuid_v4 rnd) \<and>
         is_hex64 ident \<and>
         ((\<forall>c \<in> set ip. c \<noteq> 0) \<longrightarrow> positive_num (pepper_of ip)) \<and>
         ((\<forall>c \<in> set ip. c \<noteq> 0) \<and> exact_product ip < 2 ^ 53 \<longrightarrow>
            pepper_of ip = Fin (exact_product ip)) \<and>
         (\<forall>w. \<exists>a. a \<noteq> [] \<and> pepper_of a \<noteq> Fin (wrapping_product w a))"
proof -
  from assms(1) obtain calls0 score ip' where
    calc: "calculate L g (net_seed rnd) r = (calls0, Done score)" and "remoteAddress r = Str ip'"
    by (rule create_DoneD)
  from create_Done [OF calc assms(2), of h "IdStr s" p v] assms(1)
  have ident: "ident = sha256_hex L (s @ number_toString L (pepper_of ip) @ ip @ uuid_v4 rnd)"
    by (simp add: hash_input_def)
  have hex: "is_hex64 ident"
    unfolding ident using assms(3) by simp
  have one: "positive_num (Fin 1)"
    by (simp add: positive_num_def)
  have pos: "(\<forall>c \<in> set ip. c \<noteq> 0) \<longrightarrow> positive_num (pepper_of ip)"
    unfolding pepper_of_def using pepper_loop_positive [OF one, of ip] by blast
  have exact: "(\<forall>c \<in> set ip. c \<noteq> 0) \<and> exact_product ip < 2 ^ 53 \<longrightarrow>
                 pepper_of ip = Fin (exact_product ip)"
    unfolding pepper_of_def using pepper_loop_exact [of ip 1] by simp
  have nowrap: "\<exists>a. a \<noteq> [] \<and> pepper_of a \<noteq> Fin (wrapping_product w a)" for w
  proof -
    let ?a = "replicate (Suc w) (0x40 :: 16 word)"
    have "exact_product ?a = (2 ^ 6) ^ Suc w"
      by (simp add: exact_product_def prod_list_replicate del: replicate_Suc power_Suc)
    also have "\<dots> = 2 ^ (6 * Suc w)"
      by (rule power_mult [symmetric])
    finally have "2 ^ w dvd exact_product ?a"
      by (simp add: le_imp_power_dvd del: power_Suc)
    then have "wrapping_product w ?a = 0"
      by (simp add: wrapping_product_mod del: replicate_Suc)
    moreover have "positive_num (pepper_of ?a)"
      unfolding pepper_of_def by (rule pepper_loop_positive) (simp_all add: positive_num_def)
    ultimately have "pepper_of ?a \<noteq> Fin (wrapping_product w ?a)"
      by (auto simp: positive_num_def)
    then show ?thesis by (intro exI [of _ ?a]) simp
  qed
  show ?thesis
    by (intro conjI allI) (rule ident hex pos exact nowrap)+
qed

text \<open>C6, amended, on the test request: the pepper of \<open>127.0.0.1\<close> is the exact product.\<close>

theorem identifier_derivation_witness:
  "snd (snd (create sample_libraries test_generator caller_heap test_request
          (IdStr (js ''testResourceId'')) (VRef 0) (VStr (js ''1.0'')) test_entropy))
     = Done (createToken sample_libraries
               (heap_after caller_heap (VRef 0) (VStr (js ''1.0'')) (Dyadic 6 (- 3)))
               (replicate 64 0x30) (VRef 0) (jwtConfig test_generator),
             replicate 64 0x30) \<and>
   0 \<notin> set (js ''127.0.0.1'') \<and>
   exact_product (js ''127.0.0.1'') = 1480746871296000 \<and>
   pepper_of (js ''127.0.0.1'') = Fin 1480746871296000"
proof -
  note calc = calculate_sample [of test_generator "net_seed test_entropy"]
  note cr = create_Done [OF calc remoteAddress_test_request,
      where h = caller_heap and resourceId = "IdStr (js ''testResourceId'')"
        and p = "VRef 0" and v = "VStr (js ''1.0'')"]
  have nz: "\<forall>c \<in> set (js ''127.0.0.1''). c \<noteq> 0"
    by (simp add: js_def)
  have ex: "exact_product (js ''127.0.0.1'') = 1480746871296000"
    by (simp add: exact_product_def js_def)
  show ?thesis
    using identifier_derivation [OF cr remoteAddress_test_request sample_digest] nz ex
    unfolding cr
    by (auto simp: sample_libraries_def properties_used_def)
qed

section \<open>Claim C9: two calls of create with the same inputs\<close>

lemma snd_calculate_seeded:
  "snd (calculate seeded_libraries g seed r) = Done (Dyadic (1 + 2 * int (seed mod 2)) (- 2))"
  by (simp add: calculate_cases seeded_libraries_def)

lemma calculate_seeded:
  "calculate seeded_libraries g seed r =
     (fst (calculate seeded_libraries g seed r),
      Done (Dyadic (1 + 2 * int (seed mod 2)) (- 2)))"
  by (simp add: prod_eq_iff snd_calculate_seeded)

text \<open>
  C9 as stated fails: with a network whose result depends on its random initial weights,
  two calls of \<open>create\<close> with the same request, resource id, properties and version
  record the scores 0.25 and 0.75.
\<close>

theorem scores_depend_on_the_draw:
  "fst (create seeded_libraries test_generator caller_heap test_request
          (IdStr (js ''testResourceId'')) (VRef 0) (VStr (js ''1.0'')) test_entropy)
     = [caller_object(''version'' \<mapsto> VStr (js ''1.0''),
                      ''integrity'' \<mapsto> VNum (Dyadic 1 (- 2)))] \<and>
   fst (create seeded_libraries test_generator caller_heap test_request
          (IdStr (js ''testResourceId'')) (VRef 0) (VStr (js ''1.0'')) second_entropy)
     = [caller_object(''version'' \<mapsto> VStr (js ''1.0''),
                      ''integrity'' \<mapsto> VNum (Dyadic 3 (- 2)))] \<and>
   dval (Dyadic 1 (- 2)) = 1 / 4 \<and> dval (Dyadic 3 (- 2)) = 3 / 4"
proof -
  note c1 = create_Done [OF calculate_seeded remoteAddress_test_request,
      where rnd = test_entropy and g = test_generator and h = caller_heap
        and resourceId = "IdStr (js ''testResourceId'')"
        and p = "VRef 0" and v = "VStr (js ''1.0'')"]
  note c2 = create_Done [OF calculate_seeded remoteAddress_test_request,
      where rnd = second_entropy and g = test_generator and h = caller_heap
        and resourceId = "IdStr (js ''testResourceId'')"
        and p = "VRef 0" and v = "VStr (js ''1.0'')"]
  show ?thesis
    unfolding c1 c2 fst_conv
    by (simp add: heap_after_def properties_used_def caller_heap_def test_entropy_def
        second_entropy_def power_int_minus)
qed

text \<open>
  C9, amended. Two successful calls of \<open>create\<close> with the same inputs on the same
  generator make the same first three library calls: the same training data, the same chain
  and the same four signals go to the scorer. If training gives the same network for the
  two draws, they record the same score and leave the same heap. If the two \<open>uuid.v4\<close>
  values differ and the digest does not collide on the two strings hashed, the two
  identifiers differ.
\<close>

theorem two_creates:
  assumes "create L g h r resourceId p v rnd1 = (h1, calls1, Done (t1, i1))"
      and "create L g h r resourceId p v rnd2 = (h2, calls2, Done (t2, i2))"
  shows "take 3 calls1 = take 3 calls2 \<and>
         (brain_train L (net_seed rnd1) (trainingData g)
            = brain_train L (net_seed rnd2) (trainingData g) \<longrightarrow>
          h1 = h2 \<and>
          snd (calculate L g (net_seed rnd1) r) = snd (calculate L g (net_seed rnd2) r)) \<and>
         (uuid_v4 rnd1 \<noteq> uuid_v4 rnd2 \<and>
          \<not> collision L (hashed_text L r resourceId rnd1) (hashed_text L r resourceId rnd2) \<longrightarrow>
          i1 \<noteq> i2)"
proof -
  from assms(1) obtain calls01 score1 ip where
    calc1: "calculate L g (net_seed rnd1) r = (calls01, Done score1)" and
    ip: "remoteAddress r = Str ip"
    by (rule create_DoneD)
  from assms(2) obtain calls02 score2 ip' where
    calc2: "calculate L g (net_seed rnd2) r = (calls02, Done score2)" and
    "remoteAddress r = Str ip'"
    by (rule create_DoneD)
  obtain d where lev: "levenshtein L (idealRequestChain g) (chain_of g r) = Inr d"
    using calc1 by (cases "levenshtein L (idealRequestChain g) (chain_of g r)")
      (simp_all add: calculate_cases)
  let ?data = "data_of L r d (chain_of g r)"
  let ?pre = "[NetTrain (trainingData g), LevGetAsync (idealRequestChain g) (chain_of g r),
               NetRun ?data]"
  have k1: "calls01 = ?pre" and s1: "score1 = brain_run L (brain_train L (net_seed rnd1)
               (trainingData g)) ?data"
    using calc1 lev by (simp_all add: calculate_cases)
  have k2: "calls02 = ?pre" and s2: "score2 = brain_run L (brain_train L (net_seed rnd2)
               (trainingData g)) ?data"
    using calc2 lev by (simp_all add: calculate_cases)
  note cr1 = create_Done [OF calc1 ip, of h resourceId p v]
  note cr2 = create_Done [OF calc2 ip, of h resourceId p v]
  from cr1 assms(1) have h1: "h1 = heap_after h p v score1"
    and i1: "i1 = sha256_hex L (hashed_text L r resourceId rnd1)"
    and c1: "take 3 calls1 = ?pre"
    by (simp_all add: hashed_text_def ip k1)
  from cr2 assms(2) have h2: "h2 = heap_after h p v score2"
    and i2: "i2 = sha256_hex L (hashed_text L r resourceId rnd2)"
    and c2: "take 3 calls2 = ?pre"
    by (simp_all add: hashed_text_def ip k2)
  have same: "brain_train L (net_seed rnd1) (trainingData g)
            = brain_train L (net_seed rnd2) (trainingData g) \<longrightarrow>
          h1 = h2 \<and>
          snd (calculate L g (net_seed rnd1) r) = snd (calculate L g (net_seed rnd2) r)"
    by (simp add: h1 h2 s1 s2 calc1 calc2)
  have texts: "uuid_v4 rnd1 \<noteq> uuid_v4 rnd2 \<longrightarrow>
          hashed_text L r resourceId rnd1 \<noteq> hashed_text L r resourceId rnd2"
    by (simp add: hashed_text_def ip hash_input_def)
  have "uuid_v4 rnd1 \<noteq> uuid_v4 rnd2 \<and>
          \<not> collision L (hashed_text L r resourceId rnd1) (hashed_text L r resourceId rnd2) \<longrightarrow>
          i1 \<noteq> i2"
    using texts by (auto simp: collision_def i1 i2)
  with same c1 c2 show ?thesis by simp
qed

text \<open>
  C9, amended, with the seeded libraries and two draws of different identifiers whose
  weights have the same parity.
\<close>

theorem two_creates_witness:
  "(case (snd (snd (create seeded_libraries test_generator caller_heap test_request
                     (IdStr (js ''testResourceId'')) (VRef 0) (VStr (js ''1.0'')) test_entropy)),
          snd (snd (create seeded_libraries test_generator caller_heap test_request
                     (IdStr (js ''testResourceId'')) (VRef 0) (VStr (js ''1.0'')) third_entropy)))
    of (Done (t1, i1), Done (t2, i2)) \<Rightarrow> i1 \<noteq> i2
     | _ \<Rightarrow> False) \<and>
   fst (create seeded_libraries test_generator caller_heap test_request
          (IdStr (js ''testResourceId'')) (VRef 0) (VStr (js ''1.0'')) test_entropy)
   = fst (create seeded_libraries test_generator caller_heap test_request
          (IdStr (js ''testResourceId'')) (VRef 0) (VStr (js ''1.0'')) third_entropy) \<and>
   uuid_v4 test_entropy \<noteq> uuid_v4 third_entropy"
proof -
  note c1 = create_Done [OF calculate_seeded remoteAddress_test_request,
      where rnd = test_entropy and g = test_generator and h = caller_heap
        and resourceId = "IdStr (js ''testResourceId'')"
        and p = "VRef 0" and v = "VStr (js ''1.0'')"]
  note c3 = create_Done [OF calculate_seeded remoteAddress_test_request,
      where rnd = third_entropy and g = test_generator and h = caller_heap
        and resourceId = "IdStr (js ''testResourceId'')"
        and p = "VRef 0" and v = "VStr (js ''1.0'')"]
  have u: "uuid_v4 test_entropy \<noteq> uuid_v4 third_entropy"
    by (simp add: test_entropy_def third_entropy_def js_def)
  have t: "brain_train seeded_libraries (net_seed test_entropy) (trainingData test_generator)
         = brain_train seeded_libraries (net_seed third_entropy) (trainingData test_generator)"
    by (simp add: seeded_libraries_def test_entropy_def third_entropy_def)
  have n: "\<not> collision seeded_libraries x y" for x y
    by (simp add: collision_def seeded_libraries_def)
  from two_creates [OF c1 c3] u t n
  show ?thesis unfolding c1 c3 by simp
qed

end
